theory Spec2Isabelle
  imports Main "HOL-Library.Sublist"
begin

section \<open>Status codes, parameter keys and tags\<close>

text \<open>
  \<^verbatim>\<open>status_t\<close> is a C \<^verbatim>\<open>int\<close>; the codes used by \<^verbatim>\<open>CameraHardware.cpp\<close> are the ones of
  the platform headers: \<^verbatim>\<open>NO_ERROR\<close> is 0, \<^verbatim>\<open>UNKNOWN_ERROR\<close> and \<^verbatim>\<open>BAD_TYPE\<close> are the
  two smallest 32-bit integers, and \<^verbatim>\<open>EINVAL\<close> is the positive errno 22.
\<close>

abbreviation NO_ERROR :: int where "NO_ERROR \<equiv> 0"
abbreviation UNKNOWN_ERROR :: int where "UNKNOWN_ERROR \<equiv> - 2147483648"
abbreviation BAD_TYPE :: int where "BAD_TYPE \<equiv> - 2147483647"
abbreviation EINVAL :: int where "EINVAL \<equiv> 22"

abbreviation KEY_PREVIEW_SIZE :: string where "KEY_PREVIEW_SIZE \<equiv> ''preview-size''"
abbreviation KEY_PREVIEW_FORMAT :: string where "KEY_PREVIEW_FORMAT \<equiv> ''preview-format''"
abbreviation KEY_PICTURE_SIZE :: string where "KEY_PICTURE_SIZE \<equiv> ''picture-size''"
abbreviation KEY_PICTURE_FORMAT :: string where "KEY_PICTURE_FORMAT \<equiv> ''picture-format''"
abbreviation KEY_VIDEO_SIZE :: string where "KEY_VIDEO_SIZE \<equiv> ''video-size''"
abbreviation KEY_VIDEO_FRAME_FORMAT :: string where "KEY_VIDEO_FRAME_FORMAT \<equiv> ''video-frame-format''"
abbreviation RECORDING_HINT_KEY :: string where "RECORDING_HINT_KEY \<equiv> ''recording-hint''"
abbreviation KEY_JPEG_QUALITY :: string where "KEY_JPEG_QUALITY \<equiv> ''jpeg-quality''"
abbreviation KEY_ROTATION :: string where "KEY_ROTATION \<equiv> ''rotation''"
abbreviation KEY_EFFECT :: string where "KEY_EFFECT \<equiv> ''effect''"
abbreviation KEY_WHITE_BALANCE :: string where "KEY_WHITE_BALANCE \<equiv> ''whitebalance''"
abbreviation KEY_EXPOSURE_COMPENSATION :: string where
  "KEY_EXPOSURE_COMPENSATION \<equiv> ''exposure-compensation''"
abbreviation KEY_MAX_EXPOSURE_COMPENSATION :: string where
  "KEY_MAX_EXPOSURE_COMPENSATION \<equiv> ''max-exposure-compensation''"
abbreviation KEY_MIN_EXPOSURE_COMPENSATION :: string where
  "KEY_MIN_EXPOSURE_COMPENSATION \<equiv> ''min-exposure-compensation''"
abbreviation KEY_FLASH_MODE :: string where "KEY_FLASH_MODE \<equiv> ''flash-mode''"
abbreviation KEY_SUPPORTED_FLASH_MODES :: string where
  "KEY_SUPPORTED_FLASH_MODES \<equiv> ''flash-mode-values''"
abbreviation KEY_ZOOM :: string where "KEY_ZOOM \<equiv> ''zoom''"
abbreviation KEY_MAX_ZOOM :: string where "KEY_MAX_ZOOM \<equiv> ''max-zoom''"
abbreviation KEY_FOCUS_MODE :: string where "KEY_FOCUS_MODE \<equiv> ''focus-mode''"
abbreviation KEY_SCENE_MODE :: string where "KEY_SCENE_MODE \<equiv> ''scene-mode''"

abbreviation PIXEL_FORMAT_YUV420SP :: string where "PIXEL_FORMAT_YUV420SP \<equiv> ''yuv420sp''"
abbreviation PIXEL_FORMAT_YUV420P :: string where "PIXEL_FORMAT_YUV420P \<equiv> ''yuv420p''"
abbreviation PIXEL_FORMAT_RGBA8888 :: string where "PIXEL_FORMAT_RGBA8888 \<equiv> ''rgba8888''"
abbreviation PIXEL_FORMAT_JPEG :: string where "PIXEL_FORMAT_JPEG \<equiv> ''jpeg''"
abbreviation CP_TRUE :: string where "CP_TRUE \<equiv> ''true''"
abbreviation CP_FALSE :: string where "CP_FALSE \<equiv> ''false''"

text \<open>The device format codes, colour effects and white-balance codes the file names.\<close>

datatype v4l2_fmt = V4L2_PIX_FMT_YUV420 | V4L2_PIX_FMT_RGB32 | V4L2_PIX_FMT_NV12

datatype v4l2_colorfx =
  V4L2_COLORFX_NONE | V4L2_COLORFX_BW | V4L2_COLORFX_SEPIA
  | V4L2_COLORFX_GRASS_GREEN | V4L2_COLORFX_NEGATIVE

datatype v4l2_wb =
  V4L2_WB_AUTO | V4L2_WB_DAYLIGHT | V4L2_WB_CLOUD | V4L2_WB_FLUORESCENT
  | V4L2_WB_INCANDESCENCE | V4L2_WB_TUNGSTEN

section \<open>Collaborators of the session object\<close>

text \<open>
  Every call the session makes on the device adapter, the preview window (display sink),
  the callback notifier (recording notifier) and the allocator is recorded, in order, in a
  trace. Frames are buffer addresses, timestamps are \<^verbatim>\<open>nsecs_t\<close>, the device reference is
  an object identity.
\<close>

datatype ptr = NULL | lNoParam | Heap nat

datatype call =
    ConnectDevice
  | StopDeliveringFrames
  | StopDevice
  | StartDevice int int v4l2_fmt
  | StartDeliveringFrames bool
  | TryFmtSize int int
  | SetPictureSize int int
  | GetFrameRate
  | SetImageEffect v4l2_colorfx
  | SetWhiteBalance v4l2_wb
  | SetExposure int
  | PwStartPreview
  | PwStopPreview
  | PwShowLayer bool
  | PwOnNextFrameAvailable nat int nat bool
  | CbOnNextFrameAvailable nat int nat bool
  | CbSetJpegQuality int
  | CbSetTakingPicture bool
  | Malloc nat
  | Free ptr

text \<open>
  The collaborators are not part of \<^verbatim>\<open>CameraHardware.cpp\<close>: what they answer is a
  parameter of the model. An answer may depend on everything that was called before, so
  each answer is a function of the trace so far and of the call.
  \<^item> \<open>has_device\<close>: \<^verbatim>\<open>getCameraDevice()\<close> is not \<^verbatim>\<open>NULL\<close>;
  \<^item> \<open>status\<close>: the \<^verbatim>\<open>status_t\<close> or \<^verbatim>\<open>int\<close> a call returns;
  \<^item> \<open>try_size\<close>: the width and height \<^verbatim>\<open>tryFmtSize\<close> leaves in its two arguments;
  \<^item> \<open>accepts\<close>: the \<^verbatim>\<open>bool\<close> the preview window returns for a frame;
  \<^item> \<open>malloc\<close>: the block \<^verbatim>\<open>malloc\<close> returns, \<open>None\<close> for \<^verbatim>\<open>NULL\<close>;
  \<^item> \<open>supportColorEffect\<close> ... \<open>supportZoom\<close>: the flags of \<^verbatim>\<open>CCameraConfig\<close>;
  \<^item> \<open>strtol0\<close>, \<open>int_str\<close>, \<open>parse_pair\<close>, \<open>flatten\<close>: the conversions of the
    platform's \<^verbatim>\<open>CameraParameters\<close> (\<^verbatim>\<open>strtol(v, 0, 0)\<close>, \<^verbatim>\<open>"%d"\<close>, the \<^verbatim>\<open>WxH\<close> parser,
    the serialiser).
\<close>

record env =
  has_device :: bool
  status :: "call list \<Rightarrow> call \<Rightarrow> int"
  try_size :: "call list \<Rightarrow> int \<Rightarrow> int \<Rightarrow> int \<times> int"
  accepts :: "call list \<Rightarrow> call \<Rightarrow> bool"
  malloc :: "call list \<Rightarrow> nat \<Rightarrow> nat option"
  supportColorEffect :: bool
  supportWhiteBalance :: bool
  supportExposureCompensation :: bool
  supportFlashMode :: bool
  supportZoom :: bool
  strtol0 :: "string \<Rightarrow> int"
  int_str :: "int \<Rightarrow> string"
  parse_pair :: "string \<Rightarrow> (int \<times> int) option"
  flatten :: "(string \<rightharpoonup> string) \<Rightarrow> string"

text \<open>
  The session: the Parameter Store \<open>mParameters\<close>, the flags of the three collaborators
  that the file reads or sets, the allocated parameter strings, and the trace.
\<close>

record camera =
  mParameters :: "string \<rightharpoonup> string"
  dev_connected :: bool
  dev_started :: bool
  dev_delivering :: bool
  pw_enabled :: bool
  pw_layer :: bool
  cb_taking_picture :: bool
  cb_jpeg_quality :: int
  heap :: "nat \<rightharpoonup> string"
  trace :: "call list"

definition log :: "call \<Rightarrow> camera \<Rightarrow> camera" where
  "log c s = s\<lparr>trace := trace s @ [c]\<rparr>"

subsection \<open>The Parameter Store\<close>

text \<open>
  \<^verbatim>\<open>CameraParameters\<close> is a map from keys to strings. \<^verbatim>\<open>get\<close> returns \<^verbatim>\<open>NULL\<close> (\<open>None\<close>)
  for an absent key and also for a key whose value has length zero; \<^verbatim>\<open>set\<close> keeps the
  map as it is when the key or the value holds \<^verbatim>\<open>=\<close> or \<^verbatim>\<open>;\<close>; \<^verbatim>\<open>getInt\<close> is -1 when
  \<^verbatim>\<open>get\<close> returns \<^verbatim>\<open>NULL\<close>; the size getters give (-1, -1) then, and for an unparsable
  size. Every read of the store below goes through \<open>cp_get\<close>.
\<close>

definition cp_get :: "(string \<rightharpoonup> string) \<Rightarrow> string \<Rightarrow> string option" where
  "cp_get m k = (case m k of None \<Rightarrow> None | Some v \<Rightarrow> if v = [] then None else Some v)"

definition cp_reserved :: "string \<Rightarrow> bool" where
  "cp_reserved v = (CHR ''='' \<in> set v \<or> CHR '';'' \<in> set v)"

definition cp_set :: "(string \<rightharpoonup> string) \<Rightarrow> string \<Rightarrow> string \<Rightarrow> (string \<rightharpoonup> string)" where
  "cp_set m k v = (if cp_reserved k \<or> cp_reserved v then m else m(k \<mapsto> v))"

definition cp_set_int :: "env \<Rightarrow> (string \<rightharpoonup> string) \<Rightarrow> string \<Rightarrow> int \<Rightarrow> (string \<rightharpoonup> string)" where
  "cp_set_int E m k n = cp_set m k (int_str E n)"

definition getInt :: "env \<Rightarrow> (string \<rightharpoonup> string) \<Rightarrow> string \<Rightarrow> int" where
  "getInt E m k = (case cp_get m k of None \<Rightarrow> - 1 | Some v \<Rightarrow> strtol0 E v)"

definition get_size :: "env \<Rightarrow> (string \<rightharpoonup> string) \<Rightarrow> string \<Rightarrow> int \<times> int" where
  "get_size E m k =
     (case cp_get m k of
        None \<Rightarrow> (- 1, - 1)
      | Some p \<Rightarrow> (case parse_pair E p of None \<Rightarrow> (- 1, - 1) | Some wh \<Rightarrow> wh))"

definition size_str :: "env \<Rightarrow> int \<Rightarrow> int \<Rightarrow> string" where
  "size_str E w h = int_str E w @ ''x'' @ int_str E h"

definition getPictureSize :: "env \<Rightarrow> (string \<rightharpoonup> string) \<Rightarrow> int \<times> int" where
  "getPictureSize E m = get_size E m KEY_PICTURE_SIZE"

definition getPreviewSize :: "env \<Rightarrow> (string \<rightharpoonup> string) \<Rightarrow> int \<times> int" where
  "getPreviewSize E m = get_size E m KEY_PREVIEW_SIZE"

definition getVideoSize :: "env \<Rightarrow> (string \<rightharpoonup> string) \<Rightarrow> int \<times> int" where
  "getVideoSize E m = get_size E m KEY_VIDEO_SIZE"

definition setPictureSize :: "env \<Rightarrow> (string \<rightharpoonup> string) \<Rightarrow> int \<Rightarrow> int \<Rightarrow> (string \<rightharpoonup> string)" where
  "setPictureSize E m w h = cp_set m KEY_PICTURE_SIZE (size_str E w h)"

definition setPreviewSize :: "env \<Rightarrow> (string \<rightharpoonup> string) \<Rightarrow> int \<Rightarrow> int \<Rightarrow> (string \<rightharpoonup> string)" where
  "setPreviewSize E m w h = cp_set m KEY_PREVIEW_SIZE (size_str E w h)"

definition getPreviewFormat :: "(string \<rightharpoonup> string) \<Rightarrow> string option" where
  "getPreviewFormat m = cp_get m KEY_PREVIEW_FORMAT"

definition getPictureFormat :: "(string \<rightharpoonup> string) \<Rightarrow> string option" where
  "getPictureFormat m = cp_get m KEY_PICTURE_FORMAT"

definition setPreviewFormat :: "(string \<rightharpoonup> string) \<Rightarrow> string \<Rightarrow> (string \<rightharpoonup> string)" where
  "setPreviewFormat m f = cp_set m KEY_PREVIEW_FORMAT f"

subsection \<open>The device adapter\<close>

text \<open>
  The Device Driver Adapter is the class \<^verbatim>\<open>V4L2CameraDevice\<close>, which is not part of
  \<^verbatim>\<open>CameraHardware.cpp\<close>. The spec has it "own the single underlying capture stream:
  connect/disconnect, try-format, start/stop streaming, start/stop per-frame delivery,
  expose isConnected()/isStarted()", and counts a failed "connect/start/stop/try-format
  call" among the driver failures, the stop of the frame delivery included ("only if both
  device-level stops succeed"). So each call below takes its status from the
  environment; a call that returns \<^verbatim>\<open>NO_ERROR\<close> takes effect on the flag it is about, and
  a call that fails leaves the flags as they were. \<^verbatim>\<open>isConnected()\<close> and \<^verbatim>\<open>isStarted()\<close>
  read the flags \<open>dev_connected\<close> and \<open>dev_started\<close>.
\<close>

text \<open>Modelled from the spec: \<^verbatim>\<open>connectDevice\<close> connects the device unless it fails.\<close>

definition connectDevice :: "env \<Rightarrow> camera \<Rightarrow> int \<times> camera" where
  "connectDevice E s =
     (let r = status E (trace s) ConnectDevice
      in (r, log ConnectDevice (if r = NO_ERROR then s\<lparr>dev_connected := True\<rparr> else s)))"

text \<open>
  Modelled from the spec: \<^verbatim>\<open>stopDeliveringFrames\<close> stops the per-frame delivery unless it
  fails.
\<close>

definition stopDeliveringFrames :: "env \<Rightarrow> camera \<Rightarrow> int \<times> camera" where
  "stopDeliveringFrames E s =
     (let r = status E (trace s) StopDeliveringFrames
      in (r, log StopDeliveringFrames
               (if r = NO_ERROR then s\<lparr>dev_delivering := False\<rparr> else s)))"

text \<open>Modelled from the spec: \<^verbatim>\<open>stopDevice\<close> stops the stream unless it fails.\<close>

definition stopDevice :: "env \<Rightarrow> camera \<Rightarrow> int \<times> camera" where
  "stopDevice E s =
     (let r = status E (trace s) StopDevice
      in (r, log StopDevice (if r = NO_ERROR then s\<lparr>dev_started := False\<rparr> else s)))"

text \<open>
  Modelled from the spec: \<^verbatim>\<open>startDevice\<close> starts the stream at a size and a device format
  code unless it fails.
\<close>

definition startDevice :: "env \<Rightarrow> int \<Rightarrow> int \<Rightarrow> v4l2_fmt \<Rightarrow> camera \<Rightarrow> int \<times> camera" where
  "startDevice E w h f s =
     (let r = status E (trace s) (StartDevice w h f)
      in (r, log (StartDevice w h f) (if r = NO_ERROR then s\<lparr>dev_started := True\<rparr> else s)))"

text \<open>
  Modelled from the spec: \<^verbatim>\<open>startDeliveringFrames\<close> starts the per-frame delivery, single
  shot or continuous, unless it fails.
\<close>

definition startDeliveringFrames :: "env \<Rightarrow> bool \<Rightarrow> camera \<Rightarrow> int \<times> camera" where
  "startDeliveringFrames E one_burst s =
     (let r = status E (trace s) (StartDeliveringFrames one_burst)
      in (r, log (StartDeliveringFrames one_burst)
               (if r = NO_ERROR then s\<lparr>dev_delivering := True\<rparr> else s)))"

text \<open>
  Modelled from the spec: \<^verbatim>\<open>tryFmtSize\<close> is "try-format(width,height)->adjusted(width,height)";
  it returns a status and leaves the adjusted size in its two arguments.
\<close>

definition tryFmtSize :: "env \<Rightarrow> int \<Rightarrow> int \<Rightarrow> camera \<Rightarrow> (int \<times> int \<times> int) \<times> camera" where
  "tryFmtSize E w h s =
     (let r = status E (trace s) (TryFmtSize w h);
          (w', h') = try_size E (trace s) w h
      in ((r, w', h'), log (TryFmtSize w h) s))"

subsection \<open>The preview window and the callback notifier\<close>

text \<open>
  The Display Sink is the class \<^verbatim>\<open>PreviewWindow\<close> and the Recording Notifier the class
  \<^verbatim>\<open>CallbackNotifier\<close>; neither is part of \<^verbatim>\<open>CameraHardware.cpp\<close>. The spec has the sink
  "independently trackable as enabled/disabled" and says that it "may reject a frame";
  the notifier "holds enable flags for message types, video-recording,
  still-capture-pending". \<^verbatim>\<open>isPreviewEnabled()\<close> reads the flag \<open>pw_enabled\<close>.
\<close>

text \<open>
  Modelled from the spec: the preview window's \<^verbatim>\<open>startPreview\<close> enables the sink unless it
  fails.
\<close>

definition pw_startPreview :: "env \<Rightarrow> camera \<Rightarrow> int \<times> camera" where
  "pw_startPreview E s =
     (let r = status E (trace s) PwStartPreview
      in (r, log PwStartPreview (if r = NO_ERROR then s\<lparr>pw_enabled := True\<rparr> else s)))"

text \<open>Modelled from the spec: the preview window's \<^verbatim>\<open>stopPreview\<close> disables the sink.\<close>

definition pw_stopPreview :: "camera \<Rightarrow> camera" where
  "pw_stopPreview s = log PwStopPreview (s\<lparr>pw_enabled := False\<rparr>)"

text \<open>Modelled from the spec: \<^verbatim>\<open>showLayer\<close> shows or hides the display layer.\<close>

definition pw_showLayer :: "bool \<Rightarrow> camera \<Rightarrow> camera" where
  "pw_showLayer b s = log (PwShowLayer b) (s\<lparr>pw_layer := b\<rparr>)"

text \<open>
  Modelled from the spec: the preview window is offered a frame and answers whether it
  accepted it.
\<close>

definition pw_onNextFrameAvailable ::
  "env \<Rightarrow> nat \<Rightarrow> int \<Rightarrow> nat \<Rightarrow> bool \<Rightarrow> camera \<Rightarrow> bool \<times> camera" where
  "pw_onNextFrameAvailable E frame timestamp camera_dev meta s =
     (accepts E (trace s) (PwOnNextFrameAvailable frame timestamp camera_dev meta),
      log (PwOnNextFrameAvailable frame timestamp camera_dev meta) s)"

text \<open>Modelled from the spec: the callback notifier is offered a frame.\<close>

definition cb_onNextFrameAvailable :: "nat \<Rightarrow> int \<Rightarrow> nat \<Rightarrow> bool \<Rightarrow> camera \<Rightarrow> camera" where
  "cb_onNextFrameAvailable frame timestamp camera_dev meta s =
     log (CbOnNextFrameAvailable frame timestamp camera_dev meta) s"

text \<open>Modelled from the spec: the callback notifier keeps the JPEG quality it is given.\<close>

definition cb_setJpegQuality :: "int \<Rightarrow> camera \<Rightarrow> camera" where
  "cb_setJpegQuality q s = log (CbSetJpegQuality q) (s\<lparr>cb_jpeg_quality := q\<rparr>)"

text \<open>
  Modelled from the spec: \<^verbatim>\<open>setTakingPicture\<close> sets or clears the still-capture-pending
  flag of the callback notifier.
\<close>

definition cb_setTakingPicture :: "bool \<Rightarrow> camera \<Rightarrow> camera" where
  "cb_setTakingPicture b s = log (CbSetTakingPicture b) (s\<lparr>cb_taking_picture := b\<rparr>)"

section \<open>CameraHardware\<close>

subsection \<open>Frame fan-out\<close>

text \<open>
  \<^verbatim>\<open>CameraHardware::onNextFrameAvailable\<close>: the preview window is notified first; when it
  returns false the function returns at once, otherwise the callback notifier is notified
  with the same four arguments.
\<close>

definition onNextFrameAvailable ::
  "env \<Rightarrow> nat \<Rightarrow> int \<Rightarrow> nat \<Rightarrow> bool \<Rightarrow> camera \<Rightarrow> bool \<times> camera" where
  "onNextFrameAvailable E frame timestamp camera_dev bUseMataData s =
     (let (ret, s1) = pw_onNextFrameAvailable E frame timestamp camera_dev bUseMataData s
      in if \<not> ret then (ret, s1)
         else (True, cb_onNextFrameAvailable frame timestamp camera_dev bUseMataData s1))"

text \<open>
  \<^verbatim>\<open>onNextFramePreview\<close> and \<^verbatim>\<open>onNextFrameCB\<close>, the two other frame entry points of the
  class: each notifies one consumer only.
\<close>

definition onNextFramePreview ::
  "env \<Rightarrow> nat \<Rightarrow> int \<Rightarrow> nat \<Rightarrow> bool \<Rightarrow> camera \<Rightarrow> bool \<times> camera" where
  "onNextFramePreview E frame timestamp camera_dev bUseMataData s =
     pw_onNextFrameAvailable E frame timestamp camera_dev bUseMataData s"

definition onNextFrameCB :: "nat \<Rightarrow> int \<Rightarrow> nat \<Rightarrow> bool \<Rightarrow> camera \<Rightarrow> camera" where
  "onNextFrameCB frame timestamp camera_dev bUseMataData s =
     cb_onNextFrameAvailable frame timestamp camera_dev bUseMataData s"

subsection \<open>Preview management\<close>

text \<open>
  A result \<open>None\<close> stands for a call through a null pointer (\<^verbatim>\<open>getCameraDevice()->...\<close>
  without a device, \<^verbatim>\<open>strcmp\<close> or \<^verbatim>\<open>set\<close> on a \<^verbatim>\<open>NULL\<close> string, \<^verbatim>\<open>memset\<close> on a \<^verbatim>\<open>NULL\<close>
  block): the function does not return.
\<close>

text \<open>The pixel-format chain of \<^verbatim>\<open>doStartPreview\<close>.\<close>

definition preview_org_fmt :: "string \<Rightarrow> v4l2_fmt option" where
  "preview_org_fmt pix_fmt =
     (if pix_fmt = PIXEL_FORMAT_YUV420P then Some V4L2_PIX_FMT_YUV420
      else if pix_fmt = PIXEL_FORMAT_RGBA8888 then Some V4L2_PIX_FMT_RGB32
      else if pix_fmt = PIXEL_FORMAT_YUV420SP then Some V4L2_PIX_FMT_NV12
      else None)"

text \<open>
  The first statement of \<^verbatim>\<open>doStartPreview\<close> (and the same three lines of
  \<^verbatim>\<open>takePicture\<close>): a started device is stopped, and neither status is read.
\<close>

definition stop_started_device :: "env \<Rightarrow> camera \<Rightarrow> camera" where
  "stop_started_device E s =
     (if dev_started s then snd (stopDevice E (snd (stopDeliveringFrames E s))) else s)"

text \<open>\<^verbatim>\<open>/* Make sure camera device is connected. */\<close>\<close>

definition ensure_connected :: "env \<Rightarrow> camera \<Rightarrow> int \<times> camera" where
  "ensure_connected E s = (if \<not> dev_connected s then connectDevice E s else (NO_ERROR, s))"

text \<open>
  The frame size is the video size when that key is set, the preview size otherwise. The
  pixel format is the video frame format when the recording hint is \<^verbatim>\<open>"true"\<close> and that
  format is set, the preview format otherwise; \<open>None\<close> is \<^verbatim>\<open>NULL\<close>.
\<close>

definition preview_frame_size :: "env \<Rightarrow> (string \<rightharpoonup> string) \<Rightarrow> int \<times> int" where
  "preview_frame_size E m =
     (if cp_get m KEY_VIDEO_SIZE \<noteq> None then getVideoSize E m else getPreviewSize E m)"

definition preview_pix_fmt :: "(string \<rightharpoonup> string) \<Rightarrow> string option" where
  "preview_pix_fmt m =
     (let is_video = (case cp_get m RECORDING_HINT_KEY of None \<Rightarrow> CP_FALSE | Some v \<Rightarrow> v);
          pix_fmt = (if is_video = CP_TRUE then cp_get m KEY_VIDEO_FRAME_FORMAT else None)
      in case pix_fmt of None \<Rightarrow> getPreviewFormat m | Some f \<Rightarrow> Some f)"

text \<open>
  The end of \<^verbatim>\<open>doStartPreview\<close>: \<^verbatim>\<open>startDevice\<close>, then \<^verbatim>\<open>startDeliveringFrames(false)\<close>.
  When the first fails the preview window is stopped; when the second fails the device
  is stopped (its status is not read) and then the preview window.
\<close>

definition start_stream :: "env \<Rightarrow> int \<Rightarrow> int \<Rightarrow> v4l2_fmt \<Rightarrow> camera \<Rightarrow> int \<times> camera" where
  "start_stream E width height org_fmt s =
     (let (res, s1) = startDevice E width height org_fmt s
      in if res \<noteq> NO_ERROR then (res, pw_stopPreview s1)
         else
           let (res2, s2) = startDeliveringFrames E False s1
           in if res2 \<noteq> NO_ERROR then (res2, pw_stopPreview (snd (stopDevice E s2)))
              else (res2, s2))"

text \<open>
  \<^verbatim>\<open>doStartPreview\<close> for a session that has a device, and the function itself, whose
  first statement calls through \<^verbatim>\<open>getCameraDevice()\<close>.
\<close>

definition doStartPreview_body :: "env \<Rightarrow> camera \<Rightarrow> int \<times> camera" where
  "doStartPreview_body E s =
     (let (res, s2) = pw_startPreview E (stop_started_device E s)
      in if res \<noteq> NO_ERROR then (res, s2)
         else
           let (cres, s3) = ensure_connected E s2
           in if cres \<noteq> NO_ERROR then (cres, pw_stopPreview s3)
              else
                let (width, height) = preview_frame_size E (mParameters s3)
                in case preview_pix_fmt (mParameters s3) of
                     None \<Rightarrow> (EINVAL, pw_stopPreview s3)
                   | Some pix_fmt \<Rightarrow>
                       (case preview_org_fmt pix_fmt of
                          None \<Rightarrow> (EINVAL, pw_stopPreview s3)
                        | Some org_fmt \<Rightarrow> start_stream E width height org_fmt s3))"

definition doStartPreview :: "env \<Rightarrow> camera \<Rightarrow> (int \<times> camera) option" where
  "doStartPreview E s = (if has_device E then Some (doStartPreview_body E s) else None)"

text \<open>
  \<^verbatim>\<open>doStopPreview\<close> likewise; it calls through \<^verbatim>\<open>getCameraDevice()\<close> only when the
  preview window is enabled. The status of \<^verbatim>\<open>stopDeliveringFrames\<close> is not read; the local
  \<^verbatim>\<open>res\<close>, assigned by \<^verbatim>\<open>stopDevice\<close>, decides whether the preview window is stopped;
  the function returns \<^verbatim>\<open>NO_ERROR\<close> in every case.
\<close>

definition doStopPreview_body :: "env \<Rightarrow> camera \<Rightarrow> int \<times> camera" where
  "doStopPreview_body E s =
     (if pw_enabled s then
        (let (res, s1) =
               (if dev_started s then stopDevice E (snd (stopDeliveringFrames E s))
                else (NO_ERROR, s))
         in (NO_ERROR, if res = NO_ERROR then pw_stopPreview s1 else s1))
      else (NO_ERROR, s))"

definition doStopPreview :: "env \<Rightarrow> camera \<Rightarrow> (int \<times> camera) option" where
  "doStopPreview E s =
     (if pw_enabled s \<and> \<not> has_device E then None else Some (doStopPreview_body E s))"

text \<open>
  The public methods: \<^verbatim>\<open>startPreview\<close> negates, \<^verbatim>\<open>stopPreview\<close> returns nothing. The
  negation is the one of a 32-bit \<^verbatim>\<open>int\<close>: the smallest value is its own negative.
\<close>

definition neg32 :: "int \<Rightarrow> int" where
  "neg32 res = (if res = - 2147483648 then - 2147483648 else - res)"

definition startPreview :: "env \<Rightarrow> camera \<Rightarrow> (int \<times> camera) option" where
  "startPreview E s = map_option (\<lambda>(res, s'). (neg32 res, s')) (doStartPreview E s)"

definition stopPreview :: "env \<Rightarrow> camera \<Rightarrow> camera option" where
  "stopPreview E s = map_option snd (doStopPreview E s)"

subsection \<open>Still capture\<close>

text \<open>The pixel-format chain of \<^verbatim>\<open>takePicture\<close>.\<close>

definition picture_org_fmt :: "string \<Rightarrow> v4l2_fmt option" where
  "picture_org_fmt pix_fmt =
     (if pix_fmt = PIXEL_FORMAT_YUV420P then Some V4L2_PIX_FMT_YUV420
      else if pix_fmt = PIXEL_FORMAT_RGBA8888 then Some V4L2_PIX_FMT_RGB32
      else if pix_fmt = PIXEL_FORMAT_YUV420SP then Some V4L2_PIX_FMT_NV12
      else if pix_fmt = PIXEL_FORMAT_JPEG then Some V4L2_PIX_FMT_NV12
      else None)"

text \<open>
  Lines 512 to 520 of \<^verbatim>\<open>takePicture\<close>: the picture size is read from the store, offered to
  \<^verbatim>\<open>tryFmtSize\<close> (its status is not read), the size it leaves becomes the stored preview
  size, and the picture size as read is given to \<^verbatim>\<open>setPictureSize\<close>. The result is the
  frame size and the state.
\<close>

definition collect_frame_info :: "env \<Rightarrow> camera \<Rightarrow> (int \<times> int) \<times> camera" where
  "collect_frame_info E s =
     (let (pic_width, pic_height) = getPictureSize E (mParameters s);
          ((r, frame_width, frame_height), s1) = tryFmtSize E pic_width pic_height s;
          s2 = s1\<lparr>mParameters := setPreviewSize E (mParameters s1) frame_width frame_height\<rparr>;
          s3 = log (SetPictureSize pic_width pic_height) s2
      in ((frame_width, frame_height), s3))"

text \<open>
  The two recovery paths of \<^verbatim>\<open>takePicture\<close>: preview is started again when it was on, and
  the status returned is the one of the failed device call.
\<close>

definition restore_preview :: "env \<Rightarrow> bool \<Rightarrow> int \<Rightarrow> camera \<Rightarrow> int \<times> camera" where
  "restore_preview E preview_on res s =
     (if preview_on then (res, snd (doStartPreview_body E s)) else (res, s))"

text \<open>
  \<^verbatim>\<open>takePicture\<close> from the JPEG quality on (lines 536 to 591), for a device format code
  and a frame size. The session has a device here, so the calls of \<^verbatim>\<open>doStopPreview\<close> and
  \<^verbatim>\<open>doStartPreview\<close> are calls of their bodies.
\<close>

definition capture :: "env \<Rightarrow> int \<Rightarrow> int \<Rightarrow> v4l2_fmt \<Rightarrow> camera \<Rightarrow> int \<times> camera" where
  "capture E frame_width frame_height org_fmt s =
     (let q = getInt E (mParameters s) KEY_JPEG_QUALITY;
          jpeg_quality = (if q \<le> 0 then 90 else q);
          preview_on = pw_enabled s;
          s1 = (if preview_on then snd (doStopPreview_body E s) else s);
          s2 = pw_showLayer False (stop_started_device E s1);
          (res, s3) = startDevice E frame_width frame_height org_fmt s2
      in if res \<noteq> NO_ERROR then restore_preview E preview_on res s3
         else
           let s4 = cb_setTakingPicture True (cb_setJpegQuality jpeg_quality s3);
               (res2, s5) = startDeliveringFrames E False s4
           in if res2 \<noteq> NO_ERROR
              then restore_preview E preview_on res2 (cb_setTakingPicture False s5)
              else (res2, s5))"

text \<open>
  \<^verbatim>\<open>takePicture\<close>: the frame information is collected through \<^verbatim>\<open>getCameraDevice()\<close>, the
  stored picture format is compared (\<^verbatim>\<open>strcmp\<close> on \<^verbatim>\<open>NULL\<close> when the key is absent), an
  unsupported tag returns \<^verbatim>\<open>EINVAL\<close>, and the capture follows.
\<close>

definition takePicture :: "env \<Rightarrow> camera \<Rightarrow> (int \<times> camera) option" where
  "takePicture E s =
     (if \<not> has_device E then None
      else
        let ((frame_width, frame_height), s1) = collect_frame_info E s
        in case getPictureFormat (mParameters s1) of
             None \<Rightarrow> None
           | Some pix_fmt \<Rightarrow>
               (case picture_org_fmt pix_fmt of
                  None \<Rightarrow> Some (EINVAL, s1)
                | Some org_fmt \<Rightarrow> Some (capture E frame_width frame_height org_fmt s1)))"

subsection \<open>setParameters\<close>

text \<open>
  The argument is the candidate set, as \<^verbatim>\<open>unflatten\<close> leaves it in the local \<^verbatim>\<open>params\<close>.
  The function is cut at its own section comments; the local \<^verbatim>\<open>ret\<close> is threaded through
  the sections that assign it.
\<close>

text \<open>\<^verbatim>\<open>// picture size\<close>\<close>

definition sp_picture_size :: "env \<Rightarrow> (string \<rightharpoonup> string) \<Rightarrow> camera \<Rightarrow> camera" where
  "sp_picture_size E params s =
     (let (new_picture_width, new_picture_height) = getPictureSize E params
      in if 0 < new_picture_width \<and> 0 < new_picture_height
         then s\<lparr>mParameters :=
                  setPictureSize E (mParameters s) new_picture_width new_picture_height\<rparr>
         else s)"

text \<open>
  \<^verbatim>\<open>// preview size & video size\<close>: the first component is \<open>True\<close> when the function
  returns \<^verbatim>\<open>ret\<close> here. The format string was compared before, so it is not \<^verbatim>\<open>NULL\<close>.
\<close>

definition sp_preview_size ::
  "env \<Rightarrow> (string \<rightharpoonup> string) \<Rightarrow> string \<Rightarrow> int \<times> camera \<Rightarrow> bool \<times> int \<times> camera" where
  "sp_preview_size E params new_str_preview_format rs =
     (let (ret, s) = rs;
          (new_preview_width, new_preview_height) = getPreviewSize E params
      in if 0 < new_preview_width \<and> 0 < new_preview_height
         then
           let ((ret1, w, h), s1) = tryFmtSize E new_preview_width new_preview_height s
           in if ret1 < 0 then (True, ret1, s1)
              else (False, ret1,
                    s1\<lparr>mParameters :=
                         setPreviewFormat (setPreviewSize E (mParameters s1) w h)
                           new_str_preview_format\<rparr>)
         else (False, ret, s))"

text \<open>\<^verbatim>\<open>// frame rate\<close>, \<^verbatim>\<open>// JPEG image quality\<close>, \<^verbatim>\<open>// rotation\<close>\<close>

definition sp_frame_rate :: "camera \<Rightarrow> camera" where
  "sp_frame_rate s = log GetFrameRate s"

definition sp_jpeg_quality :: "env \<Rightarrow> (string \<rightharpoonup> string) \<Rightarrow> camera \<Rightarrow> camera" where
  "sp_jpeg_quality E params s =
     (let new_jpeg_quality = getInt E params KEY_JPEG_QUALITY
      in if new_jpeg_quality \<ge> 1 \<and> new_jpeg_quality \<le> 100
         then s\<lparr>mParameters := cp_set_int E (mParameters s) KEY_JPEG_QUALITY new_jpeg_quality\<rparr>
         else s)"

definition sp_rotation :: "env \<Rightarrow> (string \<rightharpoonup> string) \<Rightarrow> camera \<Rightarrow> camera" where
  "sp_rotation E params s =
     (let new_rotation = getInt E params KEY_ROTATION
      in if 0 \<le> new_rotation
         then s\<lparr>mParameters := cp_set_int E (mParameters s) KEY_ROTATION new_rotation\<rparr>
         else s)"

text \<open>
  \<^verbatim>\<open>// image effect\<close>: the tag is looked up in the chain of five comparisons; \<open>None\<close> is
  the initial -1 of \<^verbatim>\<open>new_image_effect\<close> (every code is non-negative).
\<close>

definition effect_code :: "string \<Rightarrow> v4l2_colorfx option" where
  "effect_code str =
     (if str = ''none'' then Some V4L2_COLORFX_NONE
      else if str = ''mono'' then Some V4L2_COLORFX_BW
      else if str = ''sepia'' then Some V4L2_COLORFX_SEPIA
      else if str = ''aqua'' then Some V4L2_COLORFX_GRASS_GREEN
      else if str = ''negative'' then Some V4L2_COLORFX_NEGATIVE
      else None)"

definition sp_effect :: "env \<Rightarrow> (string \<rightharpoonup> string) \<Rightarrow> int \<times> camera \<Rightarrow> int \<times> camera" where
  "sp_effect E params rs =
     (let (ret, s) = rs
      in if supportColorEffect E then
           (case cp_get params KEY_EFFECT of
              None \<Rightarrow> (ret, s)
            | Some new_image_effect_str \<Rightarrow>
                (case effect_code new_image_effect_str of
                   None \<Rightarrow> (UNKNOWN_ERROR, s)
                 | Some new_image_effect \<Rightarrow>
                     if status E (trace s) (SetImageEffect new_image_effect) < 0
                     then (UNKNOWN_ERROR, log (SetImageEffect new_image_effect) s)
                     else (ret, (log (SetImageEffect new_image_effect) s)
                                  \<lparr>mParameters :=
                                     cp_set (mParameters s) KEY_EFFECT new_image_effect_str\<rparr>)))
         else (ret, s))"

text \<open>\<^verbatim>\<open>// white balance\<close>\<close>

definition white_balance_code :: "string \<Rightarrow> v4l2_wb option" where
  "white_balance_code str =
     (if str = ''auto'' then Some V4L2_WB_AUTO
      else if str = ''daylight'' then Some V4L2_WB_DAYLIGHT
      else if str = ''cloudy-daylight'' then Some V4L2_WB_CLOUD
      else if str = ''fluorescent'' then Some V4L2_WB_FLUORESCENT
      else if str = ''incandescent'' then Some V4L2_WB_INCANDESCENCE
      else if str = ''warm-fluorescent'' then Some V4L2_WB_TUNGSTEN
      else None)"

definition sp_white_balance :: "env \<Rightarrow> (string \<rightharpoonup> string) \<Rightarrow> int \<times> camera \<Rightarrow> int \<times> camera" where
  "sp_white_balance E params rs =
     (let (ret, s) = rs
      in if supportWhiteBalance E then
           (case cp_get params KEY_WHITE_BALANCE of
              None \<Rightarrow> (ret, s)
            | Some new_white_str \<Rightarrow>
                (case white_balance_code new_white_str of
                   None \<Rightarrow> (UNKNOWN_ERROR, s)
                 | Some new_white \<Rightarrow>
                     if status E (trace s) (SetWhiteBalance new_white) < 0
                     then (UNKNOWN_ERROR, log (SetWhiteBalance new_white) s)
                     else (ret, (log (SetWhiteBalance new_white) s)
                                  \<lparr>mParameters :=
                                     cp_set (mParameters s) KEY_WHITE_BALANCE new_white_str\<rparr>)))
         else (ret, s))"

text \<open>
  \<^verbatim>\<open>// exposure compensation\<close>: the new value and both bounds are read from the candidate
  set \<^verbatim>\<open>params\<close>.
\<close>

definition sp_exposure :: "env \<Rightarrow> (string \<rightharpoonup> string) \<Rightarrow> int \<times> camera \<Rightarrow> int \<times> camera" where
  "sp_exposure E params rs =
     (let (ret, s) = rs
      in if supportExposureCompensation E then
           (let new_exposure_compensation = getInt E params KEY_EXPOSURE_COMPENSATION;
                max_exposure_compensation = getInt E params KEY_MAX_EXPOSURE_COMPENSATION;
                min_exposure_compensation = getInt E params KEY_MIN_EXPOSURE_COMPENSATION
            in if min_exposure_compensation \<le> new_exposure_compensation
                  \<and> max_exposure_compensation \<ge> new_exposure_compensation
               then
                 if status E (trace s) (SetExposure new_exposure_compensation) < 0
                 then (UNKNOWN_ERROR, log (SetExposure new_exposure_compensation) s)
                 else (ret, (log (SetExposure new_exposure_compensation) s)
                              \<lparr>mParameters :=
                                 cp_set_int E (mParameters s) KEY_EXPOSURE_COMPENSATION
                                   new_exposure_compensation\<rparr>)
               else (ret, s))
         else (ret, s))"

text \<open>
  \<^verbatim>\<open>// flash mode\<close>: the string of the candidate set is stored as it is; an absent key
  (or an empty value) gives \<^verbatim>\<open>set\<close> a \<^verbatim>\<open>NULL\<close> value. \<^verbatim>\<open>// zoom\<close>: the integer read is stored.
\<close>

definition sp_flash_mode :: "env \<Rightarrow> (string \<rightharpoonup> string) \<Rightarrow> camera \<Rightarrow> camera option" where
  "sp_flash_mode E params s =
     (if supportFlashMode E then
        (case cp_get params KEY_FLASH_MODE of
           None \<Rightarrow> None
         | Some new_flash_mode_str \<Rightarrow>
             Some (s\<lparr>mParameters := cp_set (mParameters s) KEY_FLASH_MODE new_flash_mode_str\<rparr>))
      else Some s)"

definition sp_zoom :: "env \<Rightarrow> (string \<rightharpoonup> string) \<Rightarrow> camera \<Rightarrow> camera" where
  "sp_zoom E params s =
     (if supportZoom E
      then s\<lparr>mParameters := cp_set_int E (mParameters s) KEY_ZOOM (getInt E params KEY_ZOOM)\<rparr>
      else s)"

text \<open>
  The sections after the size negotiation, in source order. The value of \<^verbatim>\<open>ret\<close> they
  leave is the first component; the last statement of \<^verbatim>\<open>setParameters\<close> is
  \<^verbatim>\<open>return NO_ERROR\<close>.
\<close>

definition sp_fields :: "env \<Rightarrow> (string \<rightharpoonup> string) \<Rightarrow> int \<times> camera \<Rightarrow> (int \<times> camera) option" where
  "sp_fields E params rs =
     (let (ret, s) = rs;
          s1 = sp_rotation E params (sp_jpeg_quality E params (sp_frame_rate s));
          (ret2, s2) = sp_exposure E params
                         (sp_white_balance E params (sp_effect E params (ret, s1)))
      in map_option (\<lambda>s3. (ret2, sp_zoom E params s3)) (sp_flash_mode E params s2))"

definition setParameters :: "env \<Rightarrow> (string \<rightharpoonup> string) \<Rightarrow> camera \<Rightarrow> (int \<times> camera) option" where
  "setParameters E params s =
     (if \<not> has_device E then Some (UNKNOWN_ERROR, s)
      else
        case getPreviewFormat params of
          None \<Rightarrow> None
        | Some preview_format \<Rightarrow>
            if preview_format \<noteq> PIXEL_FORMAT_YUV420SP then Some (BAD_TYPE, s)
            else
              (case getPictureFormat params of
                 None \<Rightarrow> None
               | Some picture_format \<Rightarrow>
                   if picture_format \<noteq> PIXEL_FORMAT_JPEG then Some (BAD_TYPE, s)
                   else
                     let (returns, ret, s2) =
                           sp_preview_size E params preview_format
                             (UNKNOWN_ERROR, sp_picture_size E params s)
                     in if returns then Some (ret, s2)
                        else map_option (\<lambda>(ret3, s3). (NO_ERROR, s3))
                               (sp_fields E params (ret, s2))))"

subsection \<open>getParameters and putParameters\<close>

text \<open>
  \<^verbatim>\<open>getParameters\<close>: \<^verbatim>\<open>malloc\<close>, then \<^verbatim>\<open>memset\<close> on the block (a write through \<^verbatim>\<open>NULL\<close>
  when the allocation failed), then the test of the block against \<^verbatim>\<open>NULL\<close> with its two
  branches. \<^verbatim>\<open>lNoParam\<close> is the address of the static character of that name.
\<close>

definition write_block :: "ptr \<Rightarrow> string \<Rightarrow> camera \<Rightarrow> camera" where
  "write_block p v s = (case p of Heap a \<Rightarrow> s\<lparr>heap := (heap s)(a \<mapsto> v)\<rparr> | _ \<Rightarrow> s)"

definition getParameters :: "env \<Rightarrow> camera \<Rightarrow> (ptr \<times> camera) option" where
  "getParameters E s =
     (let params = flatten E (mParameters s);
          ret_str = (case malloc E (trace s) (length params + 1) of
                       None \<Rightarrow> NULL | Some a \<Rightarrow> Heap a);
          s1 = log (Malloc (length params + 1)) s
      in if ret_str = NULL then None
         else
           let s2 = write_block ret_str [] s1
           in if ret_str \<noteq> NULL then Some (ret_str, write_block ret_str params s2)
              else Some (lNoParam, s2))"

definition free :: "ptr \<Rightarrow> camera \<Rightarrow> camera" where
  "free p s =
     log (Free p) (case p of Heap a \<Rightarrow> s\<lparr>heap := (heap s)(a := None)\<rparr> | _ \<Rightarrow> s)"

definition putParameters :: "ptr \<Rightarrow> camera \<Rightarrow> camera" where
  "putParameters params s = (if params \<noteq> NULL \<and> params \<noteq> lNoParam then free params s else s)"

subsection \<open>The dispatch table\<close>

text \<open>
  The entries of \<^verbatim>\<open>mDeviceOps\<close> take the session from \<^verbatim>\<open>dev->priv\<close>: \<^verbatim>\<open>-EINVAL\<close> when it is
  \<^verbatim>\<open>NULL\<close> (\<open>None\<close>), otherwise what the method returns.
\<close>

definition start_preview :: "env \<Rightarrow> camera option \<Rightarrow> (int \<times> camera option) option" where
  "start_preview E priv =
     (case priv of
        None \<Rightarrow> Some (- EINVAL, None)
      | Some ec \<Rightarrow> map_option (\<lambda>(r, s'). (r, Some s')) (startPreview E ec))"

definition take_picture :: "env \<Rightarrow> camera option \<Rightarrow> (int \<times> camera option) option" where
  "take_picture E priv =
     (case priv of
        None \<Rightarrow> Some (- EINVAL, None)
      | Some ec \<Rightarrow> map_option (\<lambda>(r, s'). (r, Some s')) (takePicture E ec))"

definition set_parameters ::
  "env \<Rightarrow> camera option \<Rightarrow> (string \<rightharpoonup> string) \<Rightarrow> (int \<times> camera option) option" where
  "set_parameters E priv parms =
     (case priv of
        None \<Rightarrow> Some (- EINVAL, None)
      | Some ec \<Rightarrow> map_option (\<lambda>(r, s'). (r, Some s')) (setParameters E parms ec))"

section \<open>A concrete platform and session for examples\<close>

text \<open>
  Decimal conversions (\<^verbatim>\<open>"%d"\<close>, \<^verbatim>\<open>strtol\<close> on an optional minus sign and digits, the
  \<^verbatim>\<open>WxH\<close> parser), a serialiser over the keys used here, a device and a preview window
  that accept every call, and a session with the default parameters of a camera whose
  sizes are 640x480 and 320x240.
\<close>

fun position_in :: "string \<Rightarrow> int \<Rightarrow> char \<Rightarrow> int option" where
  "position_in [] i c = None"
| "position_in (d # ds) i c = (if c = d then Some i else position_in ds (i + 1) c)"

definition digit_val :: "char \<Rightarrow> int option" where
  "digit_val c = position_in ''0123456789'' 0 c"

fun read_digits :: "string \<Rightarrow> int \<Rightarrow> int \<times> string" where
  "read_digits [] acc = (acc, [])"
| "read_digits (c # cs) acc =
     (case digit_val c of None \<Rightarrow> (acc, c # cs) | Some d \<Rightarrow> read_digits cs (10 * acc + d))"

definition dec_strtol :: "string \<Rightarrow> int \<times> string" where
  "dec_strtol str =
     (case str of
        [] \<Rightarrow> (0, [])
      | c # cs \<Rightarrow>
          if c = CHR ''-'' then (let (n, rest) = read_digits cs 0 in (- n, rest))
          else read_digits str 0)"

definition dec_parse_pair :: "string \<Rightarrow> (int \<times> int) option" where
  "dec_parse_pair str =
     (let (w, rest) = dec_strtol str
      in case rest of
           [] \<Rightarrow> None
         | c # cs \<Rightarrow> if c = CHR ''x'' then Some (w, fst (dec_strtol cs)) else None)"

fun show_digits :: "nat \<Rightarrow> int \<Rightarrow> string" where
  "show_digits 0 n = []"
| "show_digits (Suc fuel) n =
     (if n < 10 then [''0123456789'' ! nat n]
      else show_digits fuel (n div 10) @ [''0123456789'' ! nat (n mod 10)])"

definition dec_int_str :: "int \<Rightarrow> string" where
  "dec_int_str i = (if i < 0 then CHR ''-'' # show_digits 10 (- i) else show_digits 10 i)"

definition known_keys :: "string list" where
  "known_keys =
     [KEY_EFFECT, KEY_EXPOSURE_COMPENSATION, KEY_FLASH_MODE, KEY_SUPPORTED_FLASH_MODES,
      KEY_JPEG_QUALITY, KEY_MAX_ZOOM, KEY_PICTURE_FORMAT, KEY_PICTURE_SIZE,
      KEY_PREVIEW_FORMAT, KEY_PREVIEW_SIZE, RECORDING_HINT_KEY, KEY_ROTATION,
      KEY_VIDEO_FRAME_FORMAT, KEY_VIDEO_SIZE, KEY_WHITE_BALANCE, KEY_ZOOM]"

fun join_pairs :: "string list \<Rightarrow> string" where
  "join_pairs [] = []"
| "join_pairs [p] = p"
| "join_pairs (p # ps) = p @ '';'' @ join_pairs ps"

definition flatten_known :: "(string \<rightharpoonup> string) \<Rightarrow> string" where
  "flatten_known m =
     join_pairs (concat (map (\<lambda>k. case m k of None \<Rightarrow> [] | Some v \<Rightarrow> [k @ ''='' @ v])
                              known_keys))"

definition nearest_size :: "int \<Rightarrow> int \<Rightarrow> int \<times> int" where
  "nearest_size w h =
     (if (w, h) = (640, 480) \<or> (w, h) = (320, 240) then (w, h)
      else if w * h \<le> 320 * 240 then (320, 240) else (640, 480))"

definition env0 :: env where
  "env0 =
     \<lparr>has_device = True,
      status = (\<lambda>tr c. NO_ERROR),
      try_size = (\<lambda>tr w h. nearest_size w h),
      accepts = (\<lambda>tr c. True),
      malloc = (\<lambda>tr n. Some (length tr)),
      supportColorEffect = False,
      supportWhiteBalance = False,
      supportExposureCompensation = False,
      supportFlashMode = False,
      supportZoom = False,
      strtol0 = (\<lambda>v. fst (dec_strtol v)),
      int_str = dec_int_str,
      parse_pair = dec_parse_pair,
      flatten = flatten_known\<rparr>"

definition params0 :: "string \<rightharpoonup> string" where
  "params0 =
     [KEY_PREVIEW_SIZE \<mapsto> ''640x480'', KEY_VIDEO_SIZE \<mapsto> ''640x480'',
      KEY_PREVIEW_FORMAT \<mapsto> PIXEL_FORMAT_YUV420SP,
      KEY_VIDEO_FRAME_FORMAT \<mapsto> PIXEL_FORMAT_YUV420SP,
      KEY_PICTURE_SIZE \<mapsto> ''640x480'', KEY_PICTURE_FORMAT \<mapsto> PIXEL_FORMAT_JPEG,
      KEY_JPEG_QUALITY \<mapsto> ''90'', KEY_ROTATION \<mapsto> ''0'']"

definition cam0 :: camera where
  "cam0 =
     \<lparr>mParameters = params0,
      dev_connected = True, dev_started = False, dev_delivering = False,
      pw_enabled = False, pw_layer = False,
      cb_taking_picture = False, cb_jpeg_quality = 90,
      heap = Map.empty, trace = []\<rparr>"

definition cam_previewing :: camera where
  "cam_previewing =
     cam0\<lparr>dev_started := True, dev_delivering := True, pw_enabled := True, pw_layer := True\<rparr>"

definition cam_bad_format :: camera where
  "cam_bad_format =
     cam0\<lparr>mParameters := params0(KEY_PICTURE_FORMAT \<mapsto> ''rgb565'',
                                  KEY_PICTURE_SIZE \<mapsto> ''320x240'')\<rparr>"

text \<open>What the examples look at in a result: the status, the trace and three flags.\<close>

definition observe :: "(int \<times> camera) option \<Rightarrow> (int \<times> call list \<times> bool \<times> bool \<times> bool) option" where
  "observe res =
     map_option (\<lambda>(r, s). (r, trace s, dev_started s, pw_enabled s, cb_taking_picture s)) res"

text \<open>
  The session with the still-capture-pending flag cleared, and one call after another.
\<close>

definition forget_pending :: "camera \<Rightarrow> camera" where
  "forget_pending s = s\<lparr>cb_taking_picture := False\<rparr>"

definition and_then ::
  "(int \<times> camera) option \<Rightarrow> (camera \<Rightarrow> (int \<times> camera) option) \<Rightarrow> (int \<times> camera) option" where
  "and_then res f = (case res of None \<Rightarrow> None | Some (r, s) \<Rightarrow> f s)"

text \<open>
  A device whose \<^verbatim>\<open>startDeliveringFrames(false)\<close> fails with status 5, and one whose
  \<^verbatim>\<open>stopDevice\<close> fails as well.
\<close>

definition env_delivery_fails :: env where
  "env_delivery_fails =
     env0\<lparr>status := (\<lambda>tr c. if c = StartDeliveringFrames False then 5 else NO_ERROR)\<rparr>"

definition env_stop_fails :: env where
  "env_stop_fails =
     env0\<lparr>status := (\<lambda>tr c. if c = StartDeliveringFrames False \<or> c = StopDevice then 5
                              else NO_ERROR)\<rparr>"

text \<open>
  A camera with white balance, a candidate set with a white-balance tag that
  \<^verbatim>\<open>setParameters\<close> does not know and a JPEG quality of 50, a device whose \<^verbatim>\<open>startDevice\<close>
  fails with status 5, a candidate set with a preview format other than \<^verbatim>\<open>yuv420sp\<close>, and
  an allocator that is out of memory.
\<close>

definition env_white_balance :: env where
  "env_white_balance = env0\<lparr>supportWhiteBalance := True\<rparr>"

definition params_bad_white_balance :: "string \<rightharpoonup> string" where
  "params_bad_white_balance =
     [KEY_PREVIEW_FORMAT \<mapsto> PIXEL_FORMAT_YUV420SP, KEY_PICTURE_FORMAT \<mapsto> PIXEL_FORMAT_JPEG,
      KEY_PREVIEW_SIZE \<mapsto> ''640x480'', KEY_WHITE_BALANCE \<mapsto> ''twilight'',
      KEY_JPEG_QUALITY \<mapsto> ''50'']"

definition env_start_fails :: env where
  "env_start_fails =
     env0\<lparr>status := (\<lambda>tr c. case c of StartDevice w h f \<Rightarrow> 5 | _ \<Rightarrow> NO_ERROR)\<rparr>"

definition params_yuv420p :: "string \<rightharpoonup> string" where
  "params_yuv420p =
     [KEY_PREVIEW_FORMAT \<mapsto> PIXEL_FORMAT_YUV420P, KEY_PICTURE_FORMAT \<mapsto> PIXEL_FORMAT_JPEG]"

definition env_no_memory :: env where
  "env_no_memory = env0\<lparr>malloc := (\<lambda>tr n. None)\<rparr>"

text \<open>
  The status of a result, the stored value of a key in a result, and the value of the
  local \<^verbatim>\<open>ret\<close> of \<^verbatim>\<open>setParameters\<close> when its last statement is reached.
\<close>

definition status_of :: "(int \<times> 'a) option \<Rightarrow> int option" where
  "status_of res = map_option fst res"

definition stored :: "string \<Rightarrow> (int \<times> camera) option \<Rightarrow> string option option" where
  "stored k res = map_option (\<lambda>(r, s). mParameters s k) res"

definition final_ret :: "env \<Rightarrow> (string \<rightharpoonup> string) \<Rightarrow> camera \<Rightarrow> int option" where
  "final_ret E params s =
     (let (returns, ret, s2) =
            sp_preview_size E params PIXEL_FORMAT_YUV420SP
              (UNKNOWN_ERROR, sp_picture_size E params s)
      in status_of (sp_fields E params (ret, s2)))"

text \<open>
  The advertised values of an enumerated capability are a comma-separated list under its
  \<^verbatim>\<open>-values\<close> key. A camera with flash modes \<^verbatim>\<open>off,on,auto\<close> and a maximal zoom of 10, and a
  candidate set with the flash mode \<^verbatim>\<open>strobe\<close> and the zoom 9999.
\<close>

fun split_commas :: "string \<Rightarrow> string \<Rightarrow> string list" where
  "split_commas word [] = [rev word]"
| "split_commas word (c # cs) =
     (if c = CHR '','' then rev word # split_commas [] cs else split_commas (c # word) cs)"

definition advertised :: "(string \<rightharpoonup> string) \<Rightarrow> string \<Rightarrow> string \<Rightarrow> bool" where
  "advertised m values_key v =
     (case m values_key of None \<Rightarrow> False | Some l \<Rightarrow> v \<in> set (split_commas [] l))"

definition env_flash_zoom :: env where
  "env_flash_zoom = env0\<lparr>supportFlashMode := True, supportZoom := True\<rparr>"

definition cam_flash_zoom :: camera where
  "cam_flash_zoom =
     cam0\<lparr>mParameters := params0(KEY_SUPPORTED_FLASH_MODES \<mapsto> ''off,on,auto'',
                                  KEY_FLASH_MODE \<mapsto> ''off'',
                                  KEY_MAX_ZOOM \<mapsto> ''10'', KEY_ZOOM \<mapsto> ''0'')\<rparr>"

definition params_strobe :: "string \<rightharpoonup> string" where
  "params_strobe =
     [KEY_PREVIEW_FORMAT \<mapsto> PIXEL_FORMAT_YUV420SP, KEY_PICTURE_FORMAT \<mapsto> PIXEL_FORMAT_JPEG,
      KEY_FLASH_MODE \<mapsto> ''strobe'', KEY_ZOOM \<mapsto> ''9999'']"

text \<open>
  A device whose \<^verbatim>\<open>stopDeliveringFrames\<close> fails with status 5; a session whose stored
  picture size (320x240) differs from its stored video size (640x480); a session with a
  picture size the device cannot deliver and no video size; a camera with colour
  effects, white balance and exposure compensation, the same camera on a device that
  rejects every colour effect, and a candidate set for these three axes.
\<close>

definition env_delivery_stop_fails :: env where
  "env_delivery_stop_fails =
     env0\<lparr>status := (\<lambda>tr c. if c = StopDeliveringFrames then 5 else NO_ERROR)\<rparr>"

definition cam_small_picture :: camera where
  "cam_small_picture = cam0\<lparr>mParameters := params0(KEY_PICTURE_SIZE \<mapsto> ''320x240'')\<rparr>"

definition cam_no_video_size :: camera where
  "cam_no_video_size =
     cam0\<lparr>mParameters := (params0(KEY_PICTURE_SIZE \<mapsto> ''9999x9999'',
                                   KEY_PREVIEW_SIZE \<mapsto> ''320x240''))(KEY_VIDEO_SIZE := None)\<rparr>"

definition env_effects :: env where
  "env_effects =
     env0\<lparr>supportColorEffect := True, supportWhiteBalance := True,
           supportExposureCompensation := True\<rparr>"

definition env_effects_rejected :: env where
  "env_effects_rejected =
     env_effects\<lparr>status := (\<lambda>tr c. case c of SetImageEffect e \<Rightarrow> - 1 | _ \<Rightarrow> NO_ERROR)\<rparr>"

definition params_effects :: "string \<rightharpoonup> string" where
  "params_effects =
     [KEY_PREVIEW_FORMAT \<mapsto> PIXEL_FORMAT_YUV420SP, KEY_PICTURE_FORMAT \<mapsto> PIXEL_FORMAT_JPEG,
      KEY_EFFECT \<mapsto> ''mono'', KEY_WHITE_BALANCE \<mapsto> ''daylight'',
      KEY_EXPOSURE_COMPENSATION \<mapsto> ''1'', KEY_MIN_EXPOSURE_COMPENSATION \<mapsto> ''-3'',
      KEY_MAX_EXPOSURE_COMPENSATION \<mapsto> ''3'']"

text \<open>Whether the frame delivery is on in a result.\<close>

definition delivering_of :: "(int \<times> camera) option \<Rightarrow> bool option" where
  "delivering_of res = map_option (\<lambda>(r, s). dev_delivering s) res"

section \<open>Properties\<close>

subsection \<open>Frame fan-out\<close>

text \<open>
  C1. On every frame-available event the frame is offered to the preview window (the
  Display Sink) first. When the preview window declines it, the event ends there: the
  function returns false and the callback notifier (the Recording Notifier) is not
  called. When the preview window accepts it, the next and last call is the callback
  notifier's, with the same frame reference, timestamp, device and metadata flag, and the
  function returns true.
\<close>

theorem onNextFrameAvailable_display_gates_recording:
  "(\<not> accepts E (trace s) (PwOnNextFrameAvailable f t d m) \<longrightarrow>
      onNextFrameAvailable E f t d m s =
        (False, s\<lparr>trace := trace s @ [PwOnNextFrameAvailable f t d m]\<rparr>))
   \<and> (accepts E (trace s) (PwOnNextFrameAvailable f t d m) \<longrightarrow>
      onNextFrameAvailable E f t d m s =
        (True, s\<lparr>trace := trace s @ [PwOnNextFrameAvailable f t d m,
                                        CbOnNextFrameAvailable f t d m]\<rparr>))"
  by (simp add: onNextFrameAvailable_def pw_onNextFrameAvailable_def
        cb_onNextFrameAvailable_def log_def)

theorem onNextFrameAvailable_display_gates_recording_witness:
  "onNextFrameAvailable (env0\<lparr>accepts := (\<lambda>tr c. False)\<rparr>) 7 1000 1 False cam0 =
     (False, cam0\<lparr>trace := trace cam0 @ [PwOnNextFrameAvailable 7 1000 1 False]\<rparr>)
   \<and> onNextFrameAvailable env0 7 1000 1 False cam0 =
     (True, cam0\<lparr>trace := trace cam0 @ [PwOnNextFrameAvailable 7 1000 1 False,
                                          CbOnNextFrameAvailable 7 1000 1 False]\<rparr>)"
proof -
  have declines:
    "\<not> accepts (env0\<lparr>accepts := (\<lambda>tr c. False)\<rparr>) (trace cam0)
         (PwOnNextFrameAvailable 7 1000 1 False)"
    by simp
  have takes: "accepts env0 (trace cam0) (PwOnNextFrameAvailable 7 1000 1 False)"
    by (simp add: env0_def)
  from declines takes show ?thesis
    using onNextFrameAvailable_display_gates_recording
            [of "env0\<lparr>accepts := (\<lambda>tr c. False)\<rparr>" cam0 7 1000 1 False]
          onNextFrameAvailable_display_gates_recording [of env0 cam0 7 1000 1 False]
    by blast
qed

subsection \<open>Calls on the collaborators\<close>

text \<open>
  No call on a collaborator touches the Parameter Store, and every call extends the
  trace; the same holds for the functions built from them.
\<close>

lemmas collaborator_defs =
  log_def connectDevice_def stopDeliveringFrames_def stopDevice_def startDevice_def
  startDeliveringFrames_def tryFmtSize_def pw_startPreview_def pw_stopPreview_def
  pw_showLayer_def cb_setJpegQuality_def cb_setTakingPicture_def

lemma store_primitive [simp]:
  "mParameters (log c s) = mParameters s"
  "mParameters (snd (stopDeliveringFrames E s)) = mParameters s"
  "mParameters (pw_stopPreview s) = mParameters s"
  "mParameters (pw_showLayer b s) = mParameters s"
  "mParameters (cb_setJpegQuality q s) = mParameters s"
  "mParameters (cb_setTakingPicture b s) = mParameters s"
  "mParameters (snd (connectDevice E s)) = mParameters s"
  "mParameters (snd (stopDevice E s)) = mParameters s"
  "mParameters (snd (startDevice E w h f s)) = mParameters s"
  "mParameters (snd (startDeliveringFrames E one s)) = mParameters s"
  "mParameters (snd (pw_startPreview E s)) = mParameters s"
  by (simp_all add: collaborator_defs Let_def)

lemma trace_primitive [simp]:
  "prefix tr (trace s) \<Longrightarrow> prefix tr (trace (log c s))"
  "prefix tr (trace s) \<Longrightarrow> prefix tr (trace (snd (stopDeliveringFrames E s)))"
  "prefix tr (trace s) \<Longrightarrow> prefix tr (trace (pw_stopPreview s))"
  "prefix tr (trace s) \<Longrightarrow> prefix tr (trace (pw_showLayer b s))"
  "prefix tr (trace s) \<Longrightarrow> prefix tr (trace (cb_setJpegQuality q s))"
  "prefix tr (trace s) \<Longrightarrow> prefix tr (trace (cb_setTakingPicture b s))"
  "prefix tr (trace s) \<Longrightarrow> prefix tr (trace (snd (connectDevice E s)))"
  "prefix tr (trace s) \<Longrightarrow> prefix tr (trace (snd (stopDevice E s)))"
  "prefix tr (trace s) \<Longrightarrow> prefix tr (trace (snd (startDevice E w h f s)))"
  "prefix tr (trace s) \<Longrightarrow> prefix tr (trace (snd (startDeliveringFrames E one s)))"
  "prefix tr (trace s) \<Longrightarrow> prefix tr (trace (snd (pw_startPreview E s)))"
  by (simp_all add: collaborator_defs Let_def)

lemma store_stop_started_device [simp]:
  "mParameters (stop_started_device E s) = mParameters s"
  by (simp add: stop_started_device_def)

lemma trace_stop_started_device [simp]:
  "prefix tr (trace s) \<Longrightarrow> prefix tr (trace (stop_started_device E s))"
  by (simp add: stop_started_device_def)

lemma store_ensure_connected [simp]:
  "mParameters (snd (ensure_connected E s)) = mParameters s"
  by (simp add: ensure_connected_def)

lemma trace_ensure_connected [simp]:
  "prefix tr (trace s) \<Longrightarrow> prefix tr (trace (snd (ensure_connected E s)))"
  by (simp add: ensure_connected_def)

lemma store_start_stream [simp]:
  "mParameters (snd (start_stream E w h f s)) = mParameters s"
  by (simp add: start_stream_def split_beta Let_def)

lemma trace_start_stream [simp]:
  "prefix tr (trace s) \<Longrightarrow> prefix tr (trace (snd (start_stream E w h f s)))"
  by (simp add: start_stream_def split_beta Let_def)

lemma store_doStartPreview_body [simp]:
  "mParameters (snd (doStartPreview_body E s)) = mParameters s"
  by (simp add: doStartPreview_body_def split_beta Let_def split: option.splits)

lemma trace_doStartPreview_body [simp]:
  "prefix tr (trace s) \<Longrightarrow> prefix tr (trace (snd (doStartPreview_body E s)))"
  by (simp add: doStartPreview_body_def split_beta Let_def split: option.splits)

lemma store_doStopPreview_body [simp]:
  "mParameters (snd (doStopPreview_body E s)) = mParameters s"
  by (simp add: doStopPreview_body_def split_beta Let_def)

lemma trace_doStopPreview_body [simp]:
  "prefix tr (trace s) \<Longrightarrow> prefix tr (trace (snd (doStopPreview_body E s)))"
  by (simp add: doStopPreview_body_def split_beta Let_def)

lemma store_restore_preview [simp]:
  "mParameters (snd (restore_preview E on res s)) = mParameters s"
  by (simp add: restore_preview_def)

lemma trace_restore_preview [simp]:
  "prefix tr (trace s) \<Longrightarrow> prefix tr (trace (snd (restore_preview E on res s)))"
  by (simp add: restore_preview_def)

lemma store_capture [simp]:
  "mParameters (snd (capture E w h f s)) = mParameters s"
  by (simp add: capture_def split_beta Let_def)

lemma trace_capture [simp]:
  "prefix tr (trace s) \<Longrightarrow> prefix tr (trace (snd (capture E w h f s)))"
  by (simp add: capture_def split_beta Let_def)

subsection \<open>Stopping the preview\<close>

lemma doStopPreview_disabled: "\<not> pw_enabled s \<Longrightarrow> doStopPreview E s = Some (NO_ERROR, s)"
  by (simp add: doStopPreview_def doStopPreview_body_def)

lemma doStopPreview_status: "doStopPreview E s = Some (r, s') \<Longrightarrow> r = NO_ERROR"
  by (auto simp: doStopPreview_def doStopPreview_body_def Let_def split: if_splits prod.splits)

lemma doStopPreview_again:
  assumes "doStopPreview E s = Some (r, s')"
  shows "\<exists>s2. doStopPreview E s' = Some (NO_ERROR, s2)"
proof (cases "pw_enabled s")
  case False
  with assms have "s' = s" by (simp add: doStopPreview_def doStopPreview_body_def)
  with False show ?thesis by (simp add: doStopPreview_disabled)
next
  case True
  with assms have "has_device E" by (auto simp: doStopPreview_def split: if_splits)
  then have "doStopPreview E s' = Some (NO_ERROR, snd (doStopPreview_body E s'))"
    by (simp add: doStopPreview_def doStopPreview_body_def split_beta Let_def)
  then show ?thesis ..
qed

lemma doStopPreview_started:
  assumes "pw_enabled s" "has_device E" "dev_started s"
  shows "\<exists>s'. doStopPreview E s = Some (NO_ERROR, s')
           \<and> trace s' = trace s @ [StopDeliveringFrames, StopDevice]
                 @ (if status E (trace s @ [StopDeliveringFrames]) StopDevice = NO_ERROR
                    then [PwStopPreview] else [])
           \<and> pw_enabled s' = (status E (trace s @ [StopDeliveringFrames]) StopDevice \<noteq> NO_ERROR)
           \<and> dev_started s' = (status E (trace s @ [StopDeliveringFrames]) StopDevice \<noteq> NO_ERROR)
           \<and> dev_delivering s'
                 = (dev_delivering s \<and> status E (trace s) StopDeliveringFrames \<noteq> NO_ERROR)"
  using assms by (simp add: doStopPreview_def doStopPreview_body_def collaborator_defs Let_def)

lemma doStopPreview_not_started:
  assumes "pw_enabled s" "has_device E" "\<not> dev_started s"
  shows "doStopPreview E s = Some (NO_ERROR, pw_stopPreview s)"
  using assms by (simp add: doStopPreview_def doStopPreview_body_def)


text \<open>
  C8, as the code has it. Stopping the preview is idempotent. With the preview window
  disabled, \<^verbatim>\<open>doStopPreview\<close> returns \<^verbatim>\<open>NO_ERROR\<close> and leaves the session as it is: no
  device call, no change of the sink. Every call that returns gives \<^verbatim>\<open>NO_ERROR\<close>, a second
  call right after it returns \<^verbatim>\<open>NO_ERROR\<close> too, and it changes nothing when the first one
  disabled the sink. With the preview window enabled and the device started, the calls
  made are, in this order, \<^verbatim>\<open>stopDeliveringFrames\<close>, \<^verbatim>\<open>stopDevice\<close> and, only when
  \<^verbatim>\<open>stopDevice\<close> returned \<^verbatim>\<open>NO_ERROR\<close>, the preview window's \<^verbatim>\<open>stopPreview\<close>. The sink
  stays enabled exactly when \<^verbatim>\<open>stopDevice\<close> failed; the status of
  \<^verbatim>\<open>stopDeliveringFrames\<close> is not read, and after a failed delivery stop the delivery is
  as it was. With the preview window enabled and no stream to stop, the sink is disabled
  at once.
\<close>

theorem doStopPreview_idempotent_ordered:
  "(\<not> pw_enabled s \<longrightarrow> doStopPreview E s = Some (NO_ERROR, s))
   \<and> (\<forall>r1 s1. doStopPreview E s = Some (r1, s1) \<longrightarrow>
         r1 = NO_ERROR
         \<and> (\<exists>s2. doStopPreview E s1 = Some (NO_ERROR, s2))
         \<and> (\<not> pw_enabled s1 \<longrightarrow> doStopPreview E s1 = Some (NO_ERROR, s1)))
   \<and> (pw_enabled s \<and> has_device E \<and> dev_started s \<longrightarrow>
         (\<exists>s'. doStopPreview E s = Some (NO_ERROR, s')
           \<and> trace s' = trace s @ [StopDeliveringFrames, StopDevice]
                 @ (if status E (trace s @ [StopDeliveringFrames]) StopDevice = NO_ERROR
                    then [PwStopPreview] else [])
           \<and> pw_enabled s' = (status E (trace s @ [StopDeliveringFrames]) StopDevice \<noteq> NO_ERROR)
           \<and> dev_started s' = (status E (trace s @ [StopDeliveringFrames]) StopDevice \<noteq> NO_ERROR)
           \<and> dev_delivering s'
                 = (dev_delivering s \<and> status E (trace s) StopDeliveringFrames \<noteq> NO_ERROR)))
   \<and> (pw_enabled s \<and> has_device E \<and> \<not> dev_started s \<longrightarrow>
         doStopPreview E s = Some (NO_ERROR, pw_stopPreview s))"
  using doStopPreview_disabled doStopPreview_status doStopPreview_again
    doStopPreview_started doStopPreview_not_started
  by (intro conjI allI impI) blast+

theorem doStopPreview_idempotent_ordered_witness:
  "\<exists>s'. doStopPreview env0 cam_previewing = Some (NO_ERROR, s')
      \<and> trace s' = [StopDeliveringFrames, StopDevice, PwStopPreview]
      \<and> pw_enabled s' = False \<and> dev_started s' = False \<and> dev_delivering s' = False
      \<and> doStopPreview env0 s' = Some (NO_ERROR, s')
      \<and> doStopPreview env0 cam0 = Some (NO_ERROR, cam0)"
proof -
  have running: "pw_enabled cam_previewing \<and> has_device env0 \<and> dev_started cam_previewing"
    by (simp add: cam_previewing_def env0_def)
  have ok: "status env0 (trace cam_previewing @ [StopDeliveringFrames]) StopDevice = NO_ERROR"
       "status env0 (trace cam_previewing) StopDeliveringFrames = NO_ERROR"
    by (simp_all add: env0_def)
  have idle: "\<not> pw_enabled cam0" by (simp add: cam0_def)
  have empty: "trace cam_previewing = []" by (simp add: cam_previewing_def cam0_def)
  from doStopPreview_idempotent_ordered [of cam_previewing env0] running
  obtain s' where s': "doStopPreview env0 cam_previewing = Some (NO_ERROR, s')"
      "trace s' = trace cam_previewing @ [StopDeliveringFrames, StopDevice]
                 @ (if status env0 (trace cam_previewing @ [StopDeliveringFrames]) StopDevice = NO_ERROR
                    then [PwStopPreview] else [])"
      "pw_enabled s' = (status env0 (trace cam_previewing @ [StopDeliveringFrames]) StopDevice \<noteq> NO_ERROR)"
      "dev_started s' = (status env0 (trace cam_previewing @ [StopDeliveringFrames]) StopDevice \<noteq> NO_ERROR)"
      "dev_delivering s'
         = (dev_delivering cam_previewing
            \<and> status env0 (trace cam_previewing) StopDeliveringFrames \<noteq> NO_ERROR)"
    by blast
  from s' ok have off: "\<not> pw_enabled s'" by simp
  from doStopPreview_idempotent_ordered [of cam_previewing env0] s'(1) off
  have again: "doStopPreview env0 s' = Some (NO_ERROR, s')" by blast
  from doStopPreview_idempotent_ordered [of cam0 env0] idle
  have noop: "doStopPreview env0 cam0 = Some (NO_ERROR, cam0)" by blast
  from s' ok empty again noop show ?thesis by simp
qed

text \<open>
  C8 as stated fails: with the preview running and a device whose
  \<^verbatim>\<open>stopDeliveringFrames\<close> fails with status 5 while its \<^verbatim>\<open>stopDevice\<close> succeeds,
  \<^verbatim>\<open>doStopPreview\<close> still disables the sink, although one of the two device-level stops
  failed and the delivery is still on.
\<close>

theorem doStopPreview_delivery_stop_counterexample:
  "status env_delivery_stop_fails (trace cam_previewing) StopDeliveringFrames = 5
   \<and> observe (doStopPreview env_delivery_stop_fails cam_previewing) =
       Some (NO_ERROR, [StopDeliveringFrames, StopDevice, PwStopPreview], False, False, False)
   \<and> delivering_of (doStopPreview env_delivery_stop_fails cam_previewing) = Some True"
  by code_simp

subsection \<open>Still capture: size negotiation and picture format\<close>

lemma collect_frame_info_eq:
  assumes "getPictureSize E (mParameters s) = (pic_width, pic_height)"
      and "try_size E (trace s) pic_width pic_height = (frame_width, frame_height)"
  shows "collect_frame_info E s =
           ((frame_width, frame_height),
            s\<lparr>mParameters := setPreviewSize E (mParameters s) frame_width frame_height,
              trace := trace s @ [TryFmtSize pic_width pic_height,
                                  SetPictureSize pic_width pic_height]\<rparr>)"
  using assms by (simp add: collect_frame_info_def tryFmtSize_def log_def)

lemma setPreviewSize_other: "k \<noteq> KEY_PREVIEW_SIZE \<Longrightarrow> setPreviewSize E m w h k = m k"
  by (simp add: setPreviewSize_def cp_set_def)

lemma cp_get_setPreviewSize_other:
  "k \<noteq> KEY_PREVIEW_SIZE \<Longrightarrow> cp_get (setPreviewSize E m w h) k = cp_get m k"
  by (simp add: cp_get_def setPreviewSize_other)

lemma size_str_not_empty: "size_str E w h \<noteq> []"
  by (simp add: size_str_def)

lemma getPreviewSize_setPreviewSize:
  assumes "\<not> cp_reserved (size_str E w h)" and "parse_pair E (size_str E w h) = Some (w, h)"
  shows "getPreviewSize E (setPreviewSize E m w h) = (w, h)"
  using assms
  by (simp add: getPreviewSize_def get_size_def cp_get_def setPreviewSize_def cp_set_def
        cp_reserved_def size_str_not_empty)

lemma preview_frame_size_after:
  "preview_frame_size E (setPreviewSize E m w h) =
     (if cp_get m KEY_VIDEO_SIZE \<noteq> None then getVideoSize E m
      else getPreviewSize E (setPreviewSize E m w h))"
  by (simp add: preview_frame_size_def getVideoSize_def get_size_def
        cp_get_setPreviewSize_other)

lemma start_stream_started:
  assumes "fst (start_stream E w h f s) = NO_ERROR"
  shows "trace (snd (start_stream E w h f s)) =
           trace s @ [StartDevice w h f, StartDeliveringFrames False]"
  using assms
  by (simp add: start_stream_def split_beta Let_def startDevice_def
        startDeliveringFrames_def log_def split: if_splits)

lemma doStartPreview_body_started:
  assumes "fst (doStartPreview_body E u) = NO_ERROR"
  shows "\<exists>pre f. trace (snd (doStartPreview_body E u)) =
           pre @ [StartDevice (fst (preview_frame_size E (mParameters u)))
                              (snd (preview_frame_size E (mParameters u))) f,
                  StartDeliveringFrames False]"
  using assms
  by (auto simp: doStartPreview_body_def split_beta Let_def start_stream_started
        split: if_splits option.splits)

lemma takePicture_null_format:
  assumes "has_device E" and "getPictureFormat (mParameters s) = None"
  shows "takePicture E s = None"
  using assms
  by (simp add: takePicture_def collect_frame_info_def tryFmtSize_def log_def split_beta
        getPictureFormat_def cp_get_setPreviewSize_other)


text \<open>
  C6, as the code has it. Every \<^verbatim>\<open>takePicture\<close> call that returns (the session has a
  device and a picture format is stored) first passes the stored picture size to
  \<^verbatim>\<open>tryFmtSize\<close> and then the same, unadjusted picture size to \<^verbatim>\<open>setPictureSize\<close>; these
  are the first two calls it makes. When it returns, whatever its status, the Parameter
  Store is the store before the call with the size \<^verbatim>\<open>tryFmtSize\<close> reported written as the
  preview size. That stored preview size is the geometry of a later preview only when no
  video size is stored (and the size string reads back as the size): with a video size
  stored, the frame size \<^verbatim>\<open>doStartPreview\<close> resolves is still the video size, and a later
  \<^verbatim>\<open>doStartPreview\<close> that succeeds has started the device at the frame size so resolved.
\<close>

theorem takePicture_negotiates_size:
  assumes "has_device E" and "getPictureFormat (mParameters s) = Some tag"
      and "getPictureSize E (mParameters s) = (pic_width, pic_height)"
      and "try_size E (trace s) pic_width pic_height = (frame_width, frame_height)"
  shows "\<exists>res s' rest. takePicture E s = Some (res, s')
           \<and> trace s' = trace s @ TryFmtSize pic_width pic_height
                                # SetPictureSize pic_width pic_height # rest
           \<and> mParameters s' = setPreviewSize E (mParameters s) frame_width frame_height
           \<and> preview_frame_size E (mParameters s') =
                 (if cp_get (mParameters s) KEY_VIDEO_SIZE \<noteq> None
                  then getVideoSize E (mParameters s)
                  else getPreviewSize E
                         (setPreviewSize E (mParameters s) frame_width frame_height))
           \<and> (cp_get (mParameters s) KEY_VIDEO_SIZE = None
                \<and> \<not> cp_reserved (size_str E frame_width frame_height)
                \<and> parse_pair E (size_str E frame_width frame_height)
                      = Some (frame_width, frame_height)
                \<longrightarrow> preview_frame_size E (mParameters s') = (frame_width, frame_height))
           \<and> (\<forall>t. doStartPreview E s' = Some (NO_ERROR, t) \<longrightarrow>
                  (\<exists>pre f. trace t =
                     pre @ [StartDevice (fst (preview_frame_size E (mParameters s')))
                                        (snd (preview_frame_size E (mParameters s'))) f,
                            StartDeliveringFrames False]))"
proof -
  let ?m = "setPreviewSize E (mParameters s) frame_width frame_height"
  let ?s1 = "s\<lparr>mParameters := ?m,
               trace := trace s @ [TryFmtSize pic_width pic_height,
                                   SetPictureSize pic_width pic_height]\<rparr>"
  have info: "collect_frame_info E s = ((frame_width, frame_height), ?s1)"
    by (rule collect_frame_info_eq [OF assms(3,4)])
  have fmt: "getPictureFormat (mParameters ?s1) = Some tag"
    using assms(2) by (simp add: getPictureFormat_def cp_get_setPreviewSize_other)
  have grows: "\<And>t. prefix (trace ?s1) (trace t) \<Longrightarrow>
      \<exists>rest. trace t = trace s @ TryFmtSize pic_width pic_height
                                # SetPictureSize pic_width pic_height # rest"
    by (auto simp: prefix_def)
  have "\<exists>res s'. takePicture E s = Some (res, s') \<and> mParameters s' = ?m
          \<and> prefix (trace ?s1) (trace s')"
  proof (cases "picture_org_fmt tag")
    case None
    with assms(1) info fmt have "takePicture E s = Some (EINVAL, ?s1)"
      by (simp add: takePicture_def)
    then show ?thesis by simp
  next
    case (Some org_fmt)
    let ?c = "capture E frame_width frame_height org_fmt ?s1"
    from Some assms(1) info fmt have "takePicture E s = Some (fst ?c, snd ?c)"
      by (simp add: takePicture_def)
    moreover have "mParameters (snd ?c) = ?m" by simp
    moreover have "prefix (trace ?s1) (trace (snd ?c))" by simp
    ultimately show ?thesis by blast
  qed
  then obtain res s' where run: "takePicture E s = Some (res, s')"
    and store: "mParameters s' = ?m" and pre: "prefix (trace ?s1) (trace s')"
    by blast
  from grows [OF pre] obtain rest where
    tr: "trace s' = trace s @ TryFmtSize pic_width pic_height
                            # SetPictureSize pic_width pic_height # rest" ..
  have geometry: "preview_frame_size E (mParameters s') =
                    (if cp_get (mParameters s) KEY_VIDEO_SIZE \<noteq> None
                     then getVideoSize E (mParameters s) else getPreviewSize E ?m)"
    unfolding store by (rule preview_frame_size_after)
  have adjusted: "cp_get (mParameters s) KEY_VIDEO_SIZE = None
                \<and> \<not> cp_reserved (size_str E frame_width frame_height)
                \<and> parse_pair E (size_str E frame_width frame_height)
                      = Some (frame_width, frame_height)
                \<longrightarrow> preview_frame_size E (mParameters s') = (frame_width, frame_height)"
    unfolding geometry by (simp add: getPreviewSize_setPreviewSize)
  have later: "\<forall>t. doStartPreview E s' = Some (NO_ERROR, t) \<longrightarrow>
                  (\<exists>pre f. trace t =
                     pre @ [StartDevice (fst (preview_frame_size E (mParameters s')))
                                        (snd (preview_frame_size E (mParameters s'))) f,
                            StartDeliveringFrames False])"
  proof (intro allI impI)
    fix t
    assume "doStartPreview E s' = Some (NO_ERROR, t)"
    then have "doStartPreview_body E s' = (NO_ERROR, t)"
      by (simp add: doStartPreview_def split: if_splits)
    then have "fst (doStartPreview_body E s') = NO_ERROR"
      and t: "t = snd (doStartPreview_body E s')" by simp_all
    from doStartPreview_body_started [OF this(1)] t
    show "\<exists>pre f. trace t =
            pre @ [StartDevice (fst (preview_frame_size E (mParameters s')))
                               (snd (preview_frame_size E (mParameters s'))) f,
                   StartDeliveringFrames False]"
      by simp
  qed
  from run tr store geometry adjusted later show ?thesis by blast
qed

theorem takePicture_negotiates_size_witness:
  "(\<exists>res s' rest. takePicture env0 cam_small_picture = Some (res, s')
      \<and> trace s' = TryFmtSize 320 240 # SetPictureSize 320 240 # rest
      \<and> mParameters s' KEY_PREVIEW_SIZE = Some ''320x240''
      \<and> preview_frame_size env0 (mParameters s') = (640, 480))
   \<and> (\<exists>res s' rest. takePicture env0 cam_no_video_size = Some (res, s')
      \<and> trace s' = TryFmtSize 9999 9999 # SetPictureSize 9999 9999 # rest
      \<and> mParameters s' KEY_PREVIEW_SIZE = Some ''640x480''
      \<and> preview_frame_size env0 (mParameters s') = (640, 480))
   \<and> mParameters cam_no_video_size KEY_PREVIEW_SIZE = Some ''320x240''"
proof -
  have dev: "has_device env0" by (simp add: env0_def)
  have fmt1: "getPictureFormat (mParameters cam_small_picture) = Some PIXEL_FORMAT_JPEG"
    by code_simp
  have size1: "getPictureSize env0 (mParameters cam_small_picture) = (320, 240)"
    by code_simp
  have adjusted1: "try_size env0 (trace cam_small_picture) 320 240 = (320, 240)"
    by code_simp
  have stored1:
    "setPreviewSize env0 (mParameters cam_small_picture) 320 240 KEY_PREVIEW_SIZE
       = Some ''320x240''"
    by code_simp
  have geometry1:
    "(if cp_get (mParameters cam_small_picture) KEY_VIDEO_SIZE \<noteq> None
      then getVideoSize env0 (mParameters cam_small_picture)
      else getPreviewSize env0 (setPreviewSize env0 (mParameters cam_small_picture) 320 240))
     = (640, 480)"
    by code_simp
  have start1: "trace cam_small_picture = []"
    by (simp add: cam_small_picture_def cam0_def)
  have fmt2: "getPictureFormat (mParameters cam_no_video_size) = Some PIXEL_FORMAT_JPEG"
    by code_simp
  have size2: "getPictureSize env0 (mParameters cam_no_video_size) = (9999, 9999)"
    by code_simp
  have adjusted2: "try_size env0 (trace cam_no_video_size) 9999 9999 = (640, 480)"
    by code_simp
  have stored2:
    "setPreviewSize env0 (mParameters cam_no_video_size) 640 480 KEY_PREVIEW_SIZE
       = Some ''640x480''"
    by code_simp
  have none2: "cp_get (mParameters cam_no_video_size) KEY_VIDEO_SIZE = None
                \<and> \<not> cp_reserved (size_str env0 640 480)
                \<and> parse_pair env0 (size_str env0 640 480) = Some (640, 480)"
    by code_simp
  have before2: "mParameters cam_no_video_size KEY_PREVIEW_SIZE = Some ''320x240''"
    by (simp add: cam_no_video_size_def)
  have start2: "trace cam_no_video_size = []"
    by (simp add: cam_no_video_size_def cam0_def)
  from takePicture_negotiates_size [OF dev fmt1 size1 adjusted1] stored1 geometry1 start1
  have first: "\<exists>res s' rest. takePicture env0 cam_small_picture = Some (res, s')
      \<and> trace s' = TryFmtSize 320 240 # SetPictureSize 320 240 # rest
      \<and> mParameters s' KEY_PREVIEW_SIZE = Some ''320x240''
      \<and> preview_frame_size env0 (mParameters s') = (640, 480)"
    by auto
  from takePicture_negotiates_size [OF dev fmt2 size2 adjusted2] stored2 none2 start2
  have second: "\<exists>res s' rest. takePicture env0 cam_no_video_size = Some (res, s')
      \<and> trace s' = TryFmtSize 9999 9999 # SetPictureSize 9999 9999 # rest
      \<and> mParameters s' KEY_PREVIEW_SIZE = Some ''640x480''
      \<and> preview_frame_size env0 (mParameters s') = (640, 480)"
    by auto
  from first second before2 show ?thesis by blast
qed

text \<open>
  C6 as stated fails: with the picture size 320x240 and the default video size 640x480
  stored, \<^verbatim>\<open>takePicture\<close> writes 320x240 as the stored preview size, and the
  \<^verbatim>\<open>doStartPreview\<close> that follows starts the device at 640x480: the adjusted size has not
  become the preview geometry.
\<close>

theorem takePicture_preview_geometry_counterexample:
  "stored KEY_PREVIEW_SIZE (takePicture env0 cam_small_picture) = Some (Some ''320x240'')
   \<and> observe (and_then (takePicture env0 cam_small_picture) (doStartPreview env0)) =
       Some (NO_ERROR,
             [TryFmtSize 320 240, SetPictureSize 320 240, PwShowLayer False,
              StartDevice 320 240 V4L2_PIX_FMT_NV12, CbSetJpegQuality 90,
              CbSetTakingPicture True, StartDeliveringFrames False,
              StopDeliveringFrames, StopDevice, PwStartPreview,
              StartDevice 640 480 V4L2_PIX_FMT_NV12, StartDeliveringFrames False],
             True, True, True)"
  by code_simp

text \<open>
  C5, as the code has it. A \<^verbatim>\<open>takePicture\<close> call whose stored picture-format tag is not
  empty and none of \<^verbatim>\<open>yuv420p\<close>, \<^verbatim>\<open>rgba8888\<close>, \<^verbatim>\<open>yuv420sp\<close>, \<^verbatim>\<open>jpeg\<close> returns
  \<^verbatim>\<open>EINVAL\<close>. The size negotiation comes before the format check, so by then the device
  has received \<^verbatim>\<open>tryFmtSize\<close> and \<^verbatim>\<open>setPictureSize\<close> and the stored preview size has been
  overwritten with the adjusted size; nothing else has changed: the stream is neither
  stopped nor started, and the sinks and the notifier are not called. The tags
  \<^verbatim>\<open>yuv420sp\<close> and \<^verbatim>\<open>jpeg\<close> map to the same device format code. (For an empty tag, as
  for an absent one, the store's getter returns \<^verbatim>\<open>NULL\<close> and the call does not return:
  \<open>takePicture_null_format\<close>.)
\<close>

theorem takePicture_unsupported_format:
  assumes "has_device E" and "mParameters s KEY_PICTURE_FORMAT = Some tag" and "tag \<noteq> []"
      and "tag \<noteq> PIXEL_FORMAT_YUV420P" and "tag \<noteq> PIXEL_FORMAT_RGBA8888"
      and "tag \<noteq> PIXEL_FORMAT_YUV420SP" and "tag \<noteq> PIXEL_FORMAT_JPEG"
      and "getPictureSize E (mParameters s) = (pic_width, pic_height)"
      and "try_size E (trace s) pic_width pic_height = (frame_width, frame_height)"
  shows "takePicture E s =
           Some (EINVAL,
                 s\<lparr>mParameters := setPreviewSize E (mParameters s) frame_width frame_height,
                   trace := trace s @ [TryFmtSize pic_width pic_height,
                                       SetPictureSize pic_width pic_height]\<rparr>)
         \<and> picture_org_fmt PIXEL_FORMAT_YUV420SP = Some V4L2_PIX_FMT_NV12
         \<and> picture_org_fmt PIXEL_FORMAT_JPEG = Some V4L2_PIX_FMT_NV12"
proof -
  have "picture_org_fmt tag = None"
    using assms(4-7) by (simp add: picture_org_fmt_def)
  moreover have "getPictureFormat (setPreviewSize E (mParameters s) frame_width frame_height)
                   = Some tag"
    using assms(2,3)
    by (simp add: getPictureFormat_def cp_get_setPreviewSize_other) (simp add: cp_get_def)
  ultimately show ?thesis
    using assms(1) collect_frame_info_eq [OF assms(8,9)]
    by (simp add: takePicture_def picture_org_fmt_def)
qed

theorem takePicture_unsupported_format_witness:
  "takePicture env0 cam_bad_format =
     Some (EINVAL,
           cam_bad_format\<lparr>mParameters := setPreviewSize env0 (mParameters cam_bad_format) 320 240,
                           trace := trace cam_bad_format @ [TryFmtSize 320 240,
                                                            SetPictureSize 320 240]\<rparr>)"
proof -
  have dev: "has_device env0" by (simp add: env0_def)
  have fmt: "mParameters cam_bad_format KEY_PICTURE_FORMAT = Some ''rgb565''"
    by (simp add: cam_bad_format_def)
  have size: "getPictureSize env0 (mParameters cam_bad_format) = (320, 240)"
    by code_simp
  have adjusted: "try_size env0 (trace cam_bad_format) 320 240 = (320, 240)"
    by code_simp
  from takePicture_unsupported_format [OF dev fmt _ _ _ _ _ size adjusted]
  show ?thesis by simp
qed

text \<open>
  C5 as stated fails: with the picture format \<^verbatim>\<open>rgb565\<close>, the picture size 320x240 and
  the preview size 640x480 stored, the call returns \<^verbatim>\<open>EINVAL\<close> after two device calls, and
  the stored preview size has become 320x240.
\<close>

theorem takePicture_unsupported_format_counterexample:
  "observe (takePicture env0 cam_bad_format) =
     Some (EINVAL, [TryFmtSize 320 240, SetPictureSize 320 240], False, False, False)
   \<and> trace cam_bad_format = []
   \<and> map_option (\<lambda>(r, s). mParameters s KEY_PREVIEW_SIZE) (takePicture env0 cam_bad_format)
       = Some (Some ''320x240'')
   \<and> mParameters cam_bad_format KEY_PREVIEW_SIZE = Some ''640x480''"
  by code_simp

subsection \<open>Still capture while a capture is pending\<close>

text \<open>
  The still-capture-pending flag of the notifier is read by no call on a collaborator
  and by no function of the session; only \<^verbatim>\<open>setTakingPicture\<close> writes it.
\<close>

lemma pending_primitive [simp]:
  "log c (s\<lparr>cb_taking_picture := b\<rparr>) = (log c s)\<lparr>cb_taking_picture := b\<rparr>"
  "stopDeliveringFrames E (s\<lparr>cb_taking_picture := b\<rparr>) =
     (fst (stopDeliveringFrames E s), (snd (stopDeliveringFrames E s))\<lparr>cb_taking_picture := b\<rparr>)"
  "pw_stopPreview (s\<lparr>cb_taking_picture := b\<rparr>) = (pw_stopPreview s)\<lparr>cb_taking_picture := b\<rparr>"
  "pw_showLayer x (s\<lparr>cb_taking_picture := b\<rparr>) = (pw_showLayer x s)\<lparr>cb_taking_picture := b\<rparr>"
  "cb_setJpegQuality q (s\<lparr>cb_taking_picture := b\<rparr>) = (cb_setJpegQuality q s)\<lparr>cb_taking_picture := b\<rparr>"
  "cb_setTakingPicture x (s\<lparr>cb_taking_picture := b\<rparr>) = cb_setTakingPicture x s"
  "connectDevice E (s\<lparr>cb_taking_picture := b\<rparr>) =
     (fst (connectDevice E s), (snd (connectDevice E s))\<lparr>cb_taking_picture := b\<rparr>)"
  "stopDevice E (s\<lparr>cb_taking_picture := b\<rparr>) =
     (fst (stopDevice E s), (snd (stopDevice E s))\<lparr>cb_taking_picture := b\<rparr>)"
  "startDevice E w h f (s\<lparr>cb_taking_picture := b\<rparr>) =
     (fst (startDevice E w h f s), (snd (startDevice E w h f s))\<lparr>cb_taking_picture := b\<rparr>)"
  "startDeliveringFrames E one (s\<lparr>cb_taking_picture := b\<rparr>) =
     (fst (startDeliveringFrames E one s),
      (snd (startDeliveringFrames E one s))\<lparr>cb_taking_picture := b\<rparr>)"
  "pw_startPreview E (s\<lparr>cb_taking_picture := b\<rparr>) =
     (fst (pw_startPreview E s), (snd (pw_startPreview E s))\<lparr>cb_taking_picture := b\<rparr>)"
  by (simp_all add: collaborator_defs Let_def)

lemma pending_stop_started_device [simp]:
  "stop_started_device E (s\<lparr>cb_taking_picture := b\<rparr>) =
     (stop_started_device E s)\<lparr>cb_taking_picture := b\<rparr>"
  by (simp add: stop_started_device_def)

lemma pending_ensure_connected [simp]:
  "ensure_connected E (s\<lparr>cb_taking_picture := b\<rparr>) =
     (fst (ensure_connected E s), (snd (ensure_connected E s))\<lparr>cb_taking_picture := b\<rparr>)"
  by (simp add: ensure_connected_def)

lemma pending_start_stream [simp]:
  "start_stream E w h f (s\<lparr>cb_taking_picture := b\<rparr>) =
     (fst (start_stream E w h f s), (snd (start_stream E w h f s))\<lparr>cb_taking_picture := b\<rparr>)"
  by (simp add: start_stream_def split_beta Let_def)

lemma pending_doStartPreview_body [simp]:
  "doStartPreview_body E (s\<lparr>cb_taking_picture := b\<rparr>) =
     (fst (doStartPreview_body E s), (snd (doStartPreview_body E s))\<lparr>cb_taking_picture := b\<rparr>)"
  by (simp add: doStartPreview_body_def split_beta Let_def split: option.splits)

lemma pending_doStopPreview_body [simp]:
  "doStopPreview_body E (s\<lparr>cb_taking_picture := b\<rparr>) =
     (fst (doStopPreview_body E s), (snd (doStopPreview_body E s))\<lparr>cb_taking_picture := b\<rparr>)"
  by (simp add: doStopPreview_body_def split_beta Let_def)

lemma pending_restore_preview [simp]:
  "restore_preview E on res (s\<lparr>cb_taking_picture := b\<rparr>) =
     (fst (restore_preview E on res s), (snd (restore_preview E on res s))\<lparr>cb_taking_picture := b\<rparr>)"
  by (simp add: restore_preview_def)

lemma pending_capture:
  "fst (capture E w h f (s\<lparr>cb_taking_picture := b\<rparr>)) = fst (capture E w h f s)"
  "forget_pending (snd (capture E w h f (s\<lparr>cb_taking_picture := b\<rparr>))) =
     forget_pending (snd (capture E w h f s))"
  by (simp_all add: capture_def split_beta Let_def forget_pending_def)

lemma pending_collect_frame_info:
  "collect_frame_info E (s\<lparr>cb_taking_picture := b\<rparr>) =
     (fst (collect_frame_info E s), (snd (collect_frame_info E s))\<lparr>cb_taking_picture := b\<rparr>)"
  by (simp add: collect_frame_info_def tryFmtSize_def log_def split_beta Let_def)

lemma forget_pending_update:
  "forget_pending (s\<lparr>cb_taking_picture := b\<rparr>) = forget_pending s"
  by (simp add: forget_pending_def)

text \<open>
  C3, as the code has it. \<^verbatim>\<open>takePicture\<close> never reads the still-capture-pending flag:
  called with the flag set it returns the same status and leaves the same session (the
  same calls on the device, the sinks and the notifier, the same store and flags) as
  called with the flag clear, up to the flag itself on the paths that do not write it.
  So a second \<^verbatim>\<open>takePicture\<close> is handled like the first one and not rejected.
\<close>

theorem takePicture_ignores_pending_capture:
  "map_option fst (takePicture E (s\<lparr>cb_taking_picture := True\<rparr>)) =
     map_option fst (takePicture E (s\<lparr>cb_taking_picture := False\<rparr>))
   \<and> map_option (forget_pending \<circ> snd) (takePicture E (s\<lparr>cb_taking_picture := True\<rparr>)) =
     map_option (forget_pending \<circ> snd) (takePicture E (s\<lparr>cb_taking_picture := False\<rparr>))"
  by (simp add: takePicture_def pending_collect_frame_info pending_capture
        forget_pending_update split_beta Let_def split: option.splits)

text \<open>
  C3 as stated fails: on the default session with a device that accepts every call,
  \<^verbatim>\<open>takePicture\<close> returns \<^verbatim>\<open>NO_ERROR\<close> with the flag set and the stream delivering, and
  a second \<^verbatim>\<open>takePicture\<close> right after it returns \<^verbatim>\<open>NO_ERROR\<close> again, after it has
  stopped the delivery and the stream of the pending capture and started them anew.
\<close>

theorem takePicture_twice_counterexample:
  "observe (takePicture env0 cam0) =
     Some (NO_ERROR,
           [TryFmtSize 640 480, SetPictureSize 640 480, PwShowLayer False,
            StartDevice 640 480 V4L2_PIX_FMT_NV12, CbSetJpegQuality 90,
            CbSetTakingPicture True, StartDeliveringFrames False],
           True, False, True)
   \<and> observe (and_then (takePicture env0 cam0) (takePicture env0)) =
     Some (NO_ERROR,
           [TryFmtSize 640 480, SetPictureSize 640 480, PwShowLayer False,
            StartDevice 640 480 V4L2_PIX_FMT_NV12, CbSetJpegQuality 90,
            CbSetTakingPicture True, StartDeliveringFrames False,
            TryFmtSize 640 480, SetPictureSize 640 480, StopDeliveringFrames, StopDevice,
            PwShowLayer False, StartDevice 640 480 V4L2_PIX_FMT_NV12, CbSetJpegQuality 90,
            CbSetTakingPicture True, StartDeliveringFrames False],
           True, False, True)"
  by code_simp

subsection \<open>Starting the preview: rollback on failure\<close>

lemma start_stream_failed:
  assumes "fst (start_stream E w h f s) \<noteq> NO_ERROR"
  shows "\<not> pw_enabled (snd (start_stream E w h f s))"
    and "last (trace (snd (start_stream E w h f s))) = PwStopPreview"
  using assms
  by (simp_all add: start_stream_def split_beta Let_def pw_stopPreview_def log_def
        split: if_splits)

lemma start_stream_failed_stopped:
  assumes "fst (start_stream E w h f s) \<noteq> NO_ERROR" and "\<not> dev_started s"
      and "\<forall>tr. status E tr StopDevice = NO_ERROR"
  shows "\<not> dev_started (snd (start_stream E w h f s))"
  using assms
  by (simp add: start_stream_def split_beta Let_def collaborator_defs split: if_splits)

lemma stop_started_device_stopped:
  "\<forall>tr. status E tr StopDevice = NO_ERROR \<Longrightarrow> \<not> dev_started (stop_started_device E s)"
  by (simp add: stop_started_device_def collaborator_defs)

lemma dev_started_kept [simp]:
  "dev_started (pw_stopPreview s) = dev_started s"
  "dev_started (snd (pw_startPreview E s)) = dev_started s"
  "dev_started (snd (ensure_connected E s)) = dev_started s"
  by (simp_all add: ensure_connected_def collaborator_defs Let_def)

lemma fst_pw_startPreview: "fst (pw_startPreview E s) = status E (trace s) PwStartPreview"
  by (simp add: pw_startPreview_def Let_def)

lemma pw_stopPreview_last [simp]:
  "\<not> pw_enabled (pw_stopPreview s)" "last (trace (pw_stopPreview s)) = PwStopPreview"
  by (simp_all add: pw_stopPreview_def log_def)

lemma doStartPreview_body_failed:
  assumes "fst (doStartPreview_body E s) \<noteq> NO_ERROR"
      and "status E (trace (stop_started_device E s)) PwStartPreview = NO_ERROR"
  shows "\<not> pw_enabled (snd (doStartPreview_body E s))"
    and "last (trace (snd (doStartPreview_body E s))) = PwStopPreview"
  using assms
  by (simp_all add: doStartPreview_body_def split_beta Let_def fst_pw_startPreview
        start_stream_failed split: if_splits option.splits)

lemma doStartPreview_body_failed_stopped:
  assumes "fst (doStartPreview_body E s) \<noteq> NO_ERROR"
      and "\<forall>tr. status E tr StopDevice = NO_ERROR"
  shows "\<not> dev_started (snd (doStartPreview_body E s))"
  using assms stop_started_device_stopped [of E s]
  by (simp add: doStartPreview_body_def split_beta Let_def start_stream_failed_stopped
        split: if_splits option.splits)

text \<open>
  C7, as the code has it. When \<^verbatim>\<open>doStartPreview\<close> fails after the preview window has
  been started (connect failure, missing or unsupported pixel format, device start
  failure, delivery start failure), the preview window is disabled when the error is
  returned, and its \<^verbatim>\<open>stopPreview\<close> is the last call made. The statuses of the
  \<^verbatim>\<open>stopDevice\<close> calls are not read: the stream is left stopped provided \<^verbatim>\<open>stopDevice\<close>
  does not fail.
\<close>

theorem doStartPreview_failure_rolls_back:
  assumes "doStartPreview E s = Some (res, s')" and "res \<noteq> NO_ERROR"
      and "status E (trace (stop_started_device E s)) PwStartPreview = NO_ERROR"
  shows "\<not> pw_enabled s' \<and> last (trace s') = PwStopPreview
         \<and> ((\<forall>tr. status E tr StopDevice = NO_ERROR) \<longrightarrow> \<not> dev_started s')"
proof -
  from assms(1) have body: "doStartPreview_body E s = (res, s')"
    by (simp add: doStartPreview_def split: if_splits)
  with assms(2) have failed: "fst (doStartPreview_body E s) \<noteq> NO_ERROR" by simp
  from doStartPreview_body_failed [OF failed assms(3)] body
  have "\<not> pw_enabled s'" and "last (trace s') = PwStopPreview" by simp_all
  moreover from doStartPreview_body_failed_stopped [OF failed] body
  have "(\<forall>tr. status E tr StopDevice = NO_ERROR) \<longrightarrow> \<not> dev_started s'" by simp
  ultimately show ?thesis by blast
qed

theorem doStartPreview_failure_rolls_back_witness:
  "\<exists>s'. doStartPreview env_delivery_fails cam0 = Some (5, s')
      \<and> pw_enabled s' = False \<and> last (trace s') = PwStopPreview \<and> dev_started s' = False"
proof -
  let ?b = "doStartPreview_body env_delivery_fails cam0"
  have "has_device env_delivery_fails" by (simp add: env_delivery_fails_def env0_def)
  then have "doStartPreview env_delivery_fails cam0 = Some ?b"
    by (simp add: doStartPreview_def)
  moreover have "fst ?b = 5" by code_simp
  ultimately have run: "doStartPreview env_delivery_fails cam0 = Some (5, snd ?b)"
    by (metis prod.collapse)
  have sink: "status env_delivery_fails (trace (stop_started_device env_delivery_fails cam0))
                PwStartPreview = NO_ERROR"
    by (simp add: env_delivery_fails_def)
  have stops: "\<forall>tr. status env_delivery_fails tr StopDevice = NO_ERROR"
    by (simp add: env_delivery_fails_def)
  from doStartPreview_failure_rolls_back [OF run _ sink] stops run
  show ?thesis by simp
qed

text \<open>
  C7 as stated fails: when the delivery start fails and the \<^verbatim>\<open>stopDevice\<close> of the
  rollback fails too, \<^verbatim>\<open>doStartPreview\<close> returns the error of the delivery start with the
  sink disabled and the stream still started.
\<close>

theorem doStartPreview_failure_counterexample:
  "observe (doStartPreview env_stop_fails cam0) =
     Some (5,
           [PwStartPreview, StartDevice 640 480 V4L2_PIX_FMT_NV12,
            StartDeliveringFrames False, StopDevice, PwStopPreview],
           True, False, False)"
  by code_simp

subsection \<open>setParameters: the status returned\<close>

text \<open>
  C2. The claim is that a \<^verbatim>\<open>setParameters\<close> call with an invalid field and a valid one
  commits the valid one and returns an error status. Here a camera with white balance
  gets the white-balance tag \<^verbatim>\<open>twilight\<close> and the JPEG quality 50: the quality is committed
  (it was 90), the white balance is not, the local \<^verbatim>\<open>ret\<close> holds \<^verbatim>\<open>UNKNOWN_ERROR\<close> when the
  last statement is reached, and the call returns \<^verbatim>\<open>NO_ERROR\<close>.
\<close>

theorem setParameters_invalid_field_returns_NO_ERROR:
  "status_of (setParameters env_white_balance params_bad_white_balance cam0) = Some NO_ERROR
   \<and> stored KEY_JPEG_QUALITY (setParameters env_white_balance params_bad_white_balance cam0)
       = Some (Some ''50'')
   \<and> mParameters cam0 KEY_JPEG_QUALITY = Some ''90''
   \<and> stored KEY_WHITE_BALANCE (setParameters env_white_balance params_bad_white_balance cam0)
       = Some None
   \<and> final_ret env_white_balance params_bad_white_balance cam0 = Some UNKNOWN_ERROR"
  by code_simp

subsection \<open>The sign of the status at the boundary\<close>

lemma neg32_values: "neg32 5 = - 5" "neg32 NO_ERROR = NO_ERROR" "neg32 UNKNOWN_ERROR = UNKNOWN_ERROR"
  by (simp_all add: neg32_def)

text \<open>
  C4. The claim is that every public wrapper returns the negation of the internal
  status. With a device whose \<^verbatim>\<open>startDevice\<close> fails with the positive status 5,
  \<^verbatim>\<open>start_preview\<close> returns -5 and \<^verbatim>\<open>take_picture\<close> returns 5; with an unsupported
  picture format stored \<^verbatim>\<open>take_picture\<close> returns the positive \<^verbatim>\<open>EINVAL\<close>; and
  \<^verbatim>\<open>set_parameters\<close> returns the status of \<^verbatim>\<open>setParameters\<close> as it is.
\<close>

theorem take_picture_status_not_negated:
  "status_of (take_picture env_start_fails (Some cam0)) = Some 5
   \<and> status_of (start_preview env_start_fails (Some cam0)) = Some (- 5)
   \<and> status_of (take_picture env0 (Some cam_bad_format)) = Some EINVAL
   \<and> status_of (set_parameters env0 (Some cam0) params_yuv420p) = Some BAD_TYPE
   \<and> status_of (setParameters env0 params_yuv420p cam0) = Some BAD_TYPE"
  by code_simp

subsection \<open>getParameters when the allocation fails\<close>

text \<open>
  A call of \<^verbatim>\<open>getParameters\<close> that returns gives the freshly allocated block, filled with
  the flattened parameters, never \<^verbatim>\<open>NULL\<close> and never the static character; a failed
  allocation ends in the write through \<^verbatim>\<open>NULL\<close>. \<^verbatim>\<open>putParameters\<close> frees allocated blocks
  only.
\<close>

lemma getParameters_allocation_failed:
  "malloc E (trace s) (length (flatten E (mParameters s)) + 1) = None \<Longrightarrow>
     getParameters E s = None"
  by (simp add: getParameters_def)

lemma getParameters_returns_block:
  assumes "getParameters E s = Some (p, s')"
  shows "\<exists>a. p = Heap a
           \<and> malloc E (trace s) (length (flatten E (mParameters s)) + 1) = Some a
           \<and> heap s' a = Some (flatten E (mParameters s))"
  using assms
  by (auto simp: getParameters_def write_block_def log_def Let_def
        split: option.splits if_splits)

lemma putParameters_guard:
  "putParameters NULL s = s"
  "putParameters lNoParam s = s"
  "putParameters (Heap a) s = free (Heap a) s"
  by (simp_all add: putParameters_def)

text \<open>
  C10. The claim is that \<^verbatim>\<open>getParameters\<close> returns the static empty string when the
  allocation fails. With an allocator that returns \<^verbatim>\<open>NULL\<close>, \<^verbatim>\<open>getParameters\<close> does not
  return: \<^verbatim>\<open>memset\<close> writes through the null pointer before the pointer is tested.
\<close>

theorem getParameters_allocation_failure:
  "malloc env_no_memory (trace cam0) (length (flatten env_no_memory (mParameters cam0)) + 1) = None
   \<and> getParameters env_no_memory cam0 = None"
  by (simp add: getParameters_def env_no_memory_def)

subsection \<open>setParameters: what is committed on each capability axis\<close>

lemma cp_set_other: "k \<noteq> k0 \<Longrightarrow> cp_set m k0 v k = m k"
  by (simp add: cp_set_def)

lemma cp_set_own: "\<not> cp_reserved k \<Longrightarrow> cp_set m k v k = (if cp_reserved v then m k else Some v)"
  by (simp add: cp_set_def)

lemma sp_picture_size_other:
  "k \<noteq> KEY_PICTURE_SIZE \<Longrightarrow> mParameters (sp_picture_size E p s) k = mParameters s k"
  by (simp add: sp_picture_size_def setPictureSize_def cp_set_other split_beta)

lemma sp_preview_size_other:
  "k \<noteq> KEY_PREVIEW_SIZE \<Longrightarrow> k \<noteq> KEY_PREVIEW_FORMAT \<Longrightarrow>
     mParameters (snd (snd (sp_preview_size E p f rs))) k = mParameters (snd rs) k"
  by (simp add: sp_preview_size_def setPreviewSize_def setPreviewFormat_def tryFmtSize_def
        cp_set_other split_beta Let_def)

lemma sp_preview_size_returns:
  "fst (sp_preview_size E p f rs) \<Longrightarrow> fst (snd (sp_preview_size E p f rs)) < 0"
  by (simp add: sp_preview_size_def split_beta Let_def split: if_splits)

lemma sp_early_other:
  "k \<noteq> KEY_JPEG_QUALITY \<Longrightarrow> k \<noteq> KEY_ROTATION \<Longrightarrow>
     mParameters (sp_rotation E p (sp_jpeg_quality E p (sp_frame_rate s))) k = mParameters s k"
  by (simp add: sp_rotation_def sp_jpeg_quality_def sp_frame_rate_def cp_set_int_def
        cp_set_other Let_def)

lemma sp_effect_other:
  "k \<noteq> KEY_EFFECT \<Longrightarrow> mParameters (snd (sp_effect E p rs)) k = mParameters (snd rs) k"
  by (simp add: sp_effect_def cp_set_other split_beta log_def split: option.splits)

lemma sp_white_balance_other:
  "k \<noteq> KEY_WHITE_BALANCE \<Longrightarrow>
     mParameters (snd (sp_white_balance E p rs)) k = mParameters (snd rs) k"
  by (simp add: sp_white_balance_def cp_set_other split_beta log_def split: option.splits)

lemma sp_exposure_other:
  "k \<noteq> KEY_EXPOSURE_COMPENSATION \<Longrightarrow>
     mParameters (snd (sp_exposure E p rs)) k = mParameters (snd rs) k"
  by (simp add: sp_exposure_def cp_set_int_def cp_set_other split_beta log_def Let_def)

lemma sp_flash_mode_other:
  "sp_flash_mode E p s = Some s' \<Longrightarrow> k \<noteq> KEY_FLASH_MODE \<Longrightarrow> mParameters s' k = mParameters s k"
  by (auto simp: sp_flash_mode_def cp_set_other split: if_splits option.splits)

lemma sp_zoom_other:
  "k \<noteq> KEY_ZOOM \<Longrightarrow> mParameters (sp_zoom E p s) k = mParameters s k"
  by (simp add: sp_zoom_def cp_set_int_def cp_set_other)

lemma effect_code_plain:
  assumes "effect_code tag = Some c"
  shows "\<not> cp_reserved tag"
proof -
  from assms have "tag \<in> {''none'', ''mono'', ''sepia'', ''aqua'', ''negative''}"
    by (simp add: effect_code_def split: if_splits)
  then show ?thesis by (auto simp: cp_reserved_def)
qed

lemma white_balance_code_plain:
  assumes "white_balance_code tag = Some c"
  shows "\<not> cp_reserved tag"
proof -
  from assms have "tag \<in> {''auto'', ''daylight'', ''cloudy-daylight'', ''fluorescent'',
                           ''incandescent'', ''warm-fluorescent''}"
    by (simp add: white_balance_code_def split: if_splits)
  then show ?thesis by (auto simp: cp_reserved_def)
qed

text \<open>Each section extends the trace.\<close>

lemma sp_sizes_trace:
  "prefix tr (trace s) \<Longrightarrow>
     prefix tr (trace (snd (snd (sp_preview_size E p f (r, sp_picture_size E p s)))))"
  by (simp add: sp_preview_size_def sp_picture_size_def tryFmtSize_def log_def split_beta
        Let_def)

lemma sp_early_trace:
  "prefix tr (trace s) \<Longrightarrow>
     prefix tr (trace (sp_rotation E p (sp_jpeg_quality E p (sp_frame_rate s))))"
  by (simp add: sp_rotation_def sp_jpeg_quality_def sp_frame_rate_def log_def Let_def)

lemma sp_effect_trace:
  "prefix tr (trace (snd rs)) \<Longrightarrow> prefix tr (trace (snd (sp_effect E p rs)))"
  by (simp add: sp_effect_def split_beta log_def split: option.splits)

lemma sp_white_balance_trace:
  "prefix tr (trace (snd rs)) \<Longrightarrow> prefix tr (trace (snd (sp_white_balance E p rs)))"
  by (simp add: sp_white_balance_def split_beta log_def split: option.splits)

lemma sp_exposure_trace:
  "prefix tr (trace (snd rs)) \<Longrightarrow> prefix tr (trace (snd (sp_exposure E p rs)))"
  by (simp add: sp_exposure_def split_beta log_def Let_def)

lemma sp_flash_mode_trace: "sp_flash_mode E p s = Some s' \<Longrightarrow> trace s' = trace s"
  by (auto simp: sp_flash_mode_def split: if_splits option.splits)

lemma sp_zoom_trace: "trace (sp_zoom E p s) = trace s"
  by (simp add: sp_zoom_def)

text \<open>
  What each section commits under its own key: the old value, or the candidate's value
  after the device was asked, just before, and did not answer with a negative status.
\<close>

lemma sp_effect_own:
  "mParameters (snd (sp_effect E p rs)) KEY_EFFECT = mParameters (snd rs) KEY_EFFECT
   \<or> (\<exists>tag c. cp_get p KEY_EFFECT = Some tag \<and> effect_code tag = Some c
           \<and> 0 \<le> status E (trace (snd rs)) (SetImageEffect c)
           \<and> prefix (trace (snd rs) @ [SetImageEffect c]) (trace (snd (sp_effect E p rs)))
           \<and> mParameters (snd (sp_effect E p rs)) KEY_EFFECT = Some tag)"
proof (cases "cp_get p KEY_EFFECT")
  case None
  then show ?thesis by (simp add: sp_effect_def split_beta)
next
  case (Some tag)
  note asked = this
  show ?thesis
  proof (cases "effect_code tag")
    case None
    with asked show ?thesis by (simp add: sp_effect_def split_beta)
  next
    case (Some c)
    from effect_code_plain [OF this] have "\<not> cp_reserved tag" .
    with Some asked show ?thesis
      by (simp add: sp_effect_def split_beta log_def cp_set_def cp_reserved_def)
  qed
qed

lemma sp_white_balance_own:
  "mParameters (snd (sp_white_balance E p rs)) KEY_WHITE_BALANCE
     = mParameters (snd rs) KEY_WHITE_BALANCE
   \<or> (\<exists>tag c. cp_get p KEY_WHITE_BALANCE = Some tag \<and> white_balance_code tag = Some c
           \<and> 0 \<le> status E (trace (snd rs)) (SetWhiteBalance c)
           \<and> prefix (trace (snd rs) @ [SetWhiteBalance c])
                 (trace (snd (sp_white_balance E p rs)))
           \<and> mParameters (snd (sp_white_balance E p rs)) KEY_WHITE_BALANCE = Some tag)"
proof (cases "cp_get p KEY_WHITE_BALANCE")
  case None
  then show ?thesis by (simp add: sp_white_balance_def split_beta)
next
  case (Some tag)
  note asked = this
  show ?thesis
  proof (cases "white_balance_code tag")
    case None
    with asked show ?thesis by (simp add: sp_white_balance_def split_beta)
  next
    case (Some c)
    from white_balance_code_plain [OF this] have "\<not> cp_reserved tag" .
    with Some asked show ?thesis
      by (simp add: sp_white_balance_def split_beta log_def cp_set_def cp_reserved_def)
  qed
qed

lemma sp_exposure_own:
  "mParameters (snd (sp_exposure E p rs)) KEY_EXPOSURE_COMPENSATION
     = mParameters (snd rs) KEY_EXPOSURE_COMPENSATION
   \<or> (getInt E p KEY_MIN_EXPOSURE_COMPENSATION \<le> getInt E p KEY_EXPOSURE_COMPENSATION
       \<and> getInt E p KEY_EXPOSURE_COMPENSATION \<le> getInt E p KEY_MAX_EXPOSURE_COMPENSATION
       \<and> 0 \<le> status E (trace (snd rs)) (SetExposure (getInt E p KEY_EXPOSURE_COMPENSATION))
       \<and> prefix (trace (snd rs) @ [SetExposure (getInt E p KEY_EXPOSURE_COMPENSATION)])
             (trace (snd (sp_exposure E p rs)))
       \<and> mParameters (snd (sp_exposure E p rs)) KEY_EXPOSURE_COMPENSATION
           = Some (int_str E (getInt E p KEY_EXPOSURE_COMPENSATION)))"
  by (simp add: sp_exposure_def split_beta log_def Let_def cp_set_int_def cp_set_def)

lemma sp_flash_mode_own:
  assumes "sp_flash_mode E p s = Some s'" and "supportFlashMode E"
  shows "\<exists>v. cp_get p KEY_FLASH_MODE = Some v
           \<and> mParameters s' KEY_FLASH_MODE
               = (if cp_reserved v then mParameters s KEY_FLASH_MODE else Some v)"
  using assms
  by (auto simp: sp_flash_mode_def cp_set_def cp_reserved_def split: option.splits)

lemma sp_zoom_own:
  assumes "supportZoom E"
  shows "mParameters (sp_zoom E p s) KEY_ZOOM
           = (if cp_reserved (int_str E (getInt E p KEY_ZOOM)) then mParameters s KEY_ZOOM
              else Some (int_str E (getInt E p KEY_ZOOM)))"
  using assms by (simp add: sp_zoom_def cp_set_int_def cp_set_def cp_reserved_def)

lemma sp_fields_Some:
  assumes "sp_fields E p (ret, s) = Some (ret', s')"
  obtains t where
    "sp_flash_mode E p
       (snd (sp_exposure E p (sp_white_balance E p (sp_effect E p
          (ret, sp_rotation E p (sp_jpeg_quality E p (sp_frame_rate s))))))) = Some t"
    and "s' = sp_zoom E p t"
  using assms by (auto simp: sp_fields_def split_beta Let_def)

lemma sp_fields_axes:
  assumes "sp_fields E p (ret, s) = Some (ret', s')"
  shows "mParameters s' KEY_EFFECT = mParameters s KEY_EFFECT
         \<or> (\<exists>tag c tr. cp_get p KEY_EFFECT = Some tag \<and> effect_code tag = Some c
                 \<and> prefix (trace s) tr \<and> prefix (tr @ [SetImageEffect c]) (trace s')
                 \<and> 0 \<le> status E tr (SetImageEffect c)
                 \<and> mParameters s' KEY_EFFECT = Some tag)"
    and "mParameters s' KEY_WHITE_BALANCE = mParameters s KEY_WHITE_BALANCE
         \<or> (\<exists>tag c tr. cp_get p KEY_WHITE_BALANCE = Some tag \<and> white_balance_code tag = Some c
                 \<and> prefix (trace s) tr \<and> prefix (tr @ [SetWhiteBalance c]) (trace s')
                 \<and> 0 \<le> status E tr (SetWhiteBalance c)
                 \<and> mParameters s' KEY_WHITE_BALANCE = Some tag)"
    and "mParameters s' KEY_EXPOSURE_COMPENSATION = mParameters s KEY_EXPOSURE_COMPENSATION
         \<or> (\<exists>tr. getInt E p KEY_MIN_EXPOSURE_COMPENSATION \<le> getInt E p KEY_EXPOSURE_COMPENSATION
             \<and> getInt E p KEY_EXPOSURE_COMPENSATION \<le> getInt E p KEY_MAX_EXPOSURE_COMPENSATION
             \<and> prefix (trace s) tr
             \<and> prefix (tr @ [SetExposure (getInt E p KEY_EXPOSURE_COMPENSATION)]) (trace s')
             \<and> 0 \<le> status E tr (SetExposure (getInt E p KEY_EXPOSURE_COMPENSATION))
             \<and> mParameters s' KEY_EXPOSURE_COMPENSATION
                 = Some (int_str E (getInt E p KEY_EXPOSURE_COMPENSATION)))"
    and "supportFlashMode E \<Longrightarrow>
           \<exists>v. cp_get p KEY_FLASH_MODE = Some v
             \<and> mParameters s' KEY_FLASH_MODE
                 = (if cp_reserved v then mParameters s KEY_FLASH_MODE else Some v)"
    and "supportZoom E \<Longrightarrow>
           mParameters s' KEY_ZOOM
             = (if cp_reserved (int_str E (getInt E p KEY_ZOOM)) then mParameters s KEY_ZOOM
                else Some (int_str E (getInt E p KEY_ZOOM)))"
    and "mParameters s' KEY_FOCUS_MODE = mParameters s KEY_FOCUS_MODE"
    and "mParameters s' KEY_SCENE_MODE = mParameters s KEY_SCENE_MODE"
proof -
  let ?t1 = "sp_rotation E p (sp_jpeg_quality E p (sp_frame_rate s))"
  let ?t2 = "sp_effect E p (ret, ?t1)"
  let ?t3 = "sp_white_balance E p ?t2"
  let ?t4 = "sp_exposure E p ?t3"
  from assms obtain t where t: "sp_flash_mode E p (snd ?t4) = Some t" and s': "s' = sp_zoom E p t"
    by (rule sp_fields_Some)
  have tr': "trace s' = trace (snd ?t4)"
    by (simp add: s' sp_zoom_trace sp_flash_mode_trace [OF t])
  have p1: "prefix (trace s) (trace (snd (ret, ?t1)))"
    by (simp add: sp_early_trace)
  have p2: "prefix (trace s) (trace (snd ?t2))"
    by (rule sp_effect_trace [OF p1])
  have p3: "prefix (trace s) (trace (snd ?t3))"
    by (rule sp_white_balance_trace [OF p2])
  have after4: "\<And>k. k \<noteq> KEY_FLASH_MODE \<Longrightarrow> k \<noteq> KEY_ZOOM \<Longrightarrow>
                  mParameters s' k = mParameters (snd ?t4) k"
    using sp_flash_mode_other [OF t] by (simp add: s' sp_zoom_other)
  have e: "mParameters s' KEY_EFFECT = mParameters (snd ?t2) KEY_EFFECT"
    by (simp add: after4 sp_exposure_other sp_white_balance_other)
  have e0: "mParameters (snd (ret, ?t1)) KEY_EFFECT = mParameters s KEY_EFFECT"
    by (simp add: sp_early_other)
  have et: "\<And>x. prefix x (trace (snd ?t2)) \<Longrightarrow> prefix x (trace s')"
    unfolding tr' by (intro sp_exposure_trace sp_white_balance_trace)
  from sp_effect_own [of E p "(ret, ?t1)"]
  show "mParameters s' KEY_EFFECT = mParameters s KEY_EFFECT
         \<or> (\<exists>tag c tr. cp_get p KEY_EFFECT = Some tag \<and> effect_code tag = Some c
                 \<and> prefix (trace s) tr \<and> prefix (tr @ [SetImageEffect c]) (trace s')
                 \<and> 0 \<le> status E tr (SetImageEffect c)
                 \<and> mParameters s' KEY_EFFECT = Some tag)"
    unfolding e e0 using p1 et by blast
  have w: "mParameters s' KEY_WHITE_BALANCE = mParameters (snd ?t3) KEY_WHITE_BALANCE"
    by (simp add: after4 sp_exposure_other)
  have w0: "mParameters (snd ?t2) KEY_WHITE_BALANCE = mParameters s KEY_WHITE_BALANCE"
    by (simp add: sp_effect_other sp_early_other)
  have wt: "\<And>x. prefix x (trace (snd ?t3)) \<Longrightarrow> prefix x (trace s')"
    unfolding tr' by (intro sp_exposure_trace)
  from sp_white_balance_own [of E p ?t2]
  show "mParameters s' KEY_WHITE_BALANCE = mParameters s KEY_WHITE_BALANCE
         \<or> (\<exists>tag c tr. cp_get p KEY_WHITE_BALANCE = Some tag \<and> white_balance_code tag = Some c
                 \<and> prefix (trace s) tr \<and> prefix (tr @ [SetWhiteBalance c]) (trace s')
                 \<and> 0 \<le> status E tr (SetWhiteBalance c)
                 \<and> mParameters s' KEY_WHITE_BALANCE = Some tag)"
    unfolding w w0 using p2 wt by blast
  have x: "mParameters s' KEY_EXPOSURE_COMPENSATION
             = mParameters (snd ?t4) KEY_EXPOSURE_COMPENSATION"
    by (simp add: after4)
  have x0: "mParameters (snd ?t3) KEY_EXPOSURE_COMPENSATION
              = mParameters s KEY_EXPOSURE_COMPENSATION"
    by (simp add: sp_white_balance_other sp_effect_other sp_early_other)
  from sp_exposure_own [of E p ?t3]
  show "mParameters s' KEY_EXPOSURE_COMPENSATION = mParameters s KEY_EXPOSURE_COMPENSATION
         \<or> (\<exists>tr. getInt E p KEY_MIN_EXPOSURE_COMPENSATION \<le> getInt E p KEY_EXPOSURE_COMPENSATION
             \<and> getInt E p KEY_EXPOSURE_COMPENSATION \<le> getInt E p KEY_MAX_EXPOSURE_COMPENSATION
             \<and> prefix (trace s) tr
             \<and> prefix (tr @ [SetExposure (getInt E p KEY_EXPOSURE_COMPENSATION)]) (trace s')
             \<and> 0 \<le> status E tr (SetExposure (getInt E p KEY_EXPOSURE_COMPENSATION))
             \<and> mParameters s' KEY_EXPOSURE_COMPENSATION
                 = Some (int_str E (getInt E p KEY_EXPOSURE_COMPENSATION)))"
    unfolding x x0 tr' using p3 by blast
  have before: "\<And>k. k \<notin> {KEY_JPEG_QUALITY, KEY_ROTATION, KEY_EFFECT, KEY_WHITE_BALANCE,
                             KEY_EXPOSURE_COMPENSATION} \<Longrightarrow>
                  mParameters (snd ?t4) k = mParameters s k"
    by (simp add: sp_exposure_other sp_white_balance_other sp_effect_other sp_early_other)
  show "mParameters s' KEY_FOCUS_MODE = mParameters s KEY_FOCUS_MODE"
    by (simp add: after4 before)
  show "mParameters s' KEY_SCENE_MODE = mParameters s KEY_SCENE_MODE"
    by (simp add: after4 before)
  have f0: "mParameters (snd ?t4) KEY_FLASH_MODE = mParameters s KEY_FLASH_MODE"
    by (simp add: before)
  have z0: "mParameters t KEY_ZOOM = mParameters s KEY_ZOOM"
    using sp_flash_mode_other [OF t, of KEY_ZOOM] by (simp add: before)
  {
    assume "supportFlashMode E"
    from sp_flash_mode_own [OF t this]
    show "\<exists>v. cp_get p KEY_FLASH_MODE = Some v
             \<and> mParameters s' KEY_FLASH_MODE
                 = (if cp_reserved v then mParameters s KEY_FLASH_MODE else Some v)"
      unfolding f0 by (simp add: s' sp_zoom_other)
  }
  {
    assume "supportZoom E"
    from sp_zoom_own [OF this, of p t]
    show "mParameters s' KEY_ZOOM
             = (if cp_reserved (int_str E (getInt E p KEY_ZOOM)) then mParameters s KEY_ZOOM
                else Some (int_str E (getInt E p KEY_ZOOM)))"
      by (simp add: s' z0)
  }
qed


lemma setParameters_cases:
  assumes "setParameters E p s = Some (res, s')"
  shows "(res \<noteq> NO_ERROR \<and> (\<forall>k. k \<noteq> KEY_PICTURE_SIZE \<longrightarrow> mParameters s' k = mParameters s k))
         \<or> (res = NO_ERROR
             \<and> (\<exists>ret s2 ret'. sp_fields E p (ret, s2) = Some (ret', s')
                   \<and> prefix (trace s) (trace s2)
                   \<and> (\<forall>k. k \<notin> {KEY_PICTURE_SIZE, KEY_PREVIEW_SIZE, KEY_PREVIEW_FORMAT} \<longrightarrow>
                          mParameters s2 k = mParameters s k)))"
proof (cases "has_device E")
  case False
  with assms show ?thesis by (simp add: setParameters_def)
next
  case True
  note dev = this
  from assms dev obtain pf where pf: "getPreviewFormat p = Some pf"
    by (auto simp: setParameters_def split: option.splits)
  show ?thesis
  proof (cases "pf = PIXEL_FORMAT_YUV420SP")
    case False
    with assms dev pf show ?thesis by (simp add: setParameters_def)
  next
    case True
    note yuv = this
    from assms dev pf yuv obtain cf where cf: "getPictureFormat p = Some cf"
      by (auto simp: setParameters_def split: option.splits)
    show ?thesis
    proof (cases "cf = PIXEL_FORMAT_JPEG")
      case False
      with assms dev pf yuv cf show ?thesis by (simp add: setParameters_def)
    next
      case True
      let ?n = "sp_preview_size E p pf (UNKNOWN_ERROR, sp_picture_size E p s)"
      have store: "\<And>k. k \<notin> {KEY_PICTURE_SIZE, KEY_PREVIEW_SIZE, KEY_PREVIEW_FORMAT} \<Longrightarrow>
                     mParameters (snd (snd ?n)) k = mParameters s k"
        by (simp add: sp_preview_size_other sp_picture_size_other)
      have grows: "prefix (trace s) (trace (snd (snd ?n)))"
        by (simp add: sp_sizes_trace)
      show ?thesis
      proof (cases "fst ?n")
        case True
        from sp_preview_size_returns [OF this] have neg: "fst (snd ?n) < 0" .
        from assms dev pf yuv cf \<open>cf = PIXEL_FORMAT_JPEG\<close> True
        have "res = fst (snd ?n)" and "s' = snd (snd ?n)"
          by (simp_all add: setParameters_def split_beta)
        moreover have "\<And>k. k \<noteq> KEY_PICTURE_SIZE \<Longrightarrow>
                         mParameters (snd (snd ?n)) k = mParameters s k"
          using True
          by (simp add: sp_preview_size_def split_beta Let_def tryFmtSize_def log_def
                sp_picture_size_other split: if_splits)
        ultimately show ?thesis using neg by simp
      next
        case False
        from assms dev pf yuv cf \<open>cf = PIXEL_FORMAT_JPEG\<close> False
        have "map_option (\<lambda>(ret3, s3). (NO_ERROR, s3))
                (sp_fields E p (fst (snd ?n), snd (snd ?n))) = Some (res, s')"
          by (simp add: setParameters_def split_beta)
        then obtain ret' where "sp_fields E p (fst (snd ?n), snd (snd ?n)) = Some (ret', s')"
          and "res = NO_ERROR"
          by (auto simp: map_option_case split: option.splits)
        with store grows show ?thesis by blast
      qed
    qed
  qed
qed

text \<open>
  C9, as the code has it. \<^verbatim>\<open>setParameters\<close> compares no value with the Capability Table.
  When it returns: the stored effect (white balance) is what it was, or it is the tag of
  the candidate set, which then belongs to the built-in tags of the function and for
  whose code \<^verbatim>\<open>setImageEffect\<close> (\<^verbatim>\<open>setWhiteBalance\<close>) was called during this call and did
  not return a negative status; the stored exposure compensation is what it was, or it
  is the candidate's value, which then lies between the minimum and the maximum of the
  same candidate set and was accepted by \<^verbatim>\<open>setExposure\<close> in the same way; after a call that
  returns \<^verbatim>\<open>NO_ERROR\<close>, on a camera with flash the stored flash mode is the candidate's
  string and on a camera with zoom the stored zoom is the candidate's integer, whatever
  they are (the store keeps its old value only for a string with \<^verbatim>\<open>=\<close> or \<^verbatim>\<open>;\<close>); focus
  mode and scene mode are never changed.
\<close>

theorem setParameters_axis_values:
  assumes "setParameters E p s = Some (res, s')"
  shows "(mParameters s' KEY_EFFECT = mParameters s KEY_EFFECT
          \<or> (\<exists>tag c tr. cp_get p KEY_EFFECT = Some tag \<and> effect_code tag = Some c
                  \<and> prefix (trace s) tr \<and> prefix (tr @ [SetImageEffect c]) (trace s')
                  \<and> 0 \<le> status E tr (SetImageEffect c)
                  \<and> mParameters s' KEY_EFFECT = Some tag))
       \<and> (mParameters s' KEY_WHITE_BALANCE = mParameters s KEY_WHITE_BALANCE
          \<or> (\<exists>tag c tr. cp_get p KEY_WHITE_BALANCE = Some tag \<and> white_balance_code tag = Some c
                  \<and> prefix (trace s) tr \<and> prefix (tr @ [SetWhiteBalance c]) (trace s')
                  \<and> 0 \<le> status E tr (SetWhiteBalance c)
                  \<and> mParameters s' KEY_WHITE_BALANCE = Some tag))
       \<and> (mParameters s' KEY_EXPOSURE_COMPENSATION = mParameters s KEY_EXPOSURE_COMPENSATION
          \<or> (\<exists>tr. getInt E p KEY_MIN_EXPOSURE_COMPENSATION \<le> getInt E p KEY_EXPOSURE_COMPENSATION
              \<and> getInt E p KEY_EXPOSURE_COMPENSATION \<le> getInt E p KEY_MAX_EXPOSURE_COMPENSATION
              \<and> prefix (trace s) tr
              \<and> prefix (tr @ [SetExposure (getInt E p KEY_EXPOSURE_COMPENSATION)]) (trace s')
              \<and> 0 \<le> status E tr (SetExposure (getInt E p KEY_EXPOSURE_COMPENSATION))
              \<and> mParameters s' KEY_EXPOSURE_COMPENSATION
                  = Some (int_str E (getInt E p KEY_EXPOSURE_COMPENSATION))))
       \<and> (res = NO_ERROR \<and> supportFlashMode E \<longrightarrow>
            (\<exists>v. cp_get p KEY_FLASH_MODE = Some v
               \<and> mParameters s' KEY_FLASH_MODE
                   = (if cp_reserved v then mParameters s KEY_FLASH_MODE else Some v)))
       \<and> (res = NO_ERROR \<and> supportZoom E \<longrightarrow>
            mParameters s' KEY_ZOOM
              = (if cp_reserved (int_str E (getInt E p KEY_ZOOM)) then mParameters s KEY_ZOOM
                 else Some (int_str E (getInt E p KEY_ZOOM))))
       \<and> mParameters s' KEY_FOCUS_MODE = mParameters s KEY_FOCUS_MODE
       \<and> mParameters s' KEY_SCENE_MODE = mParameters s KEY_SCENE_MODE"
proof -
  from setParameters_cases [OF assms] show ?thesis
  proof (elim disjE conjE exE)
    assume "res \<noteq> NO_ERROR" and "\<forall>k. k \<noteq> KEY_PICTURE_SIZE \<longrightarrow> mParameters s' k = mParameters s k"
    then show ?thesis by simp
  next
    fix ret s2 ret'
    assume ok: "res = NO_ERROR" and fields: "sp_fields E p (ret, s2) = Some (ret', s')"
      and grows: "prefix (trace s) (trace s2)"
      and same: "\<forall>k. k \<notin> {KEY_PICTURE_SIZE, KEY_PREVIEW_SIZE, KEY_PREVIEW_FORMAT} \<longrightarrow>
                   mParameters s2 k = mParameters s k"
    from same have eq:
      "mParameters s2 KEY_EFFECT = mParameters s KEY_EFFECT"
      "mParameters s2 KEY_WHITE_BALANCE = mParameters s KEY_WHITE_BALANCE"
      "mParameters s2 KEY_EXPOSURE_COMPENSATION = mParameters s KEY_EXPOSURE_COMPENSATION"
      "mParameters s2 KEY_FLASH_MODE = mParameters s KEY_FLASH_MODE"
      "mParameters s2 KEY_ZOOM = mParameters s KEY_ZOOM"
      "mParameters s2 KEY_FOCUS_MODE = mParameters s KEY_FOCUS_MODE"
      "mParameters s2 KEY_SCENE_MODE = mParameters s KEY_SCENE_MODE"
      by simp_all
    have later: "\<And>tr. prefix (trace s2) tr \<Longrightarrow> prefix (trace s) tr"
      using grows by (rule prefix_order.trans)
    note axes = sp_fields_axes [OF fields, unfolded eq]
    have effect: "mParameters s' KEY_EFFECT = mParameters s KEY_EFFECT
          \<or> (\<exists>tag c tr. cp_get p KEY_EFFECT = Some tag \<and> effect_code tag = Some c
                  \<and> prefix (trace s) tr \<and> prefix (tr @ [SetImageEffect c]) (trace s')
                  \<and> 0 \<le> status E tr (SetImageEffect c)
                  \<and> mParameters s' KEY_EFFECT = Some tag)"
      using axes(1) later by blast
    have white: "mParameters s' KEY_WHITE_BALANCE = mParameters s KEY_WHITE_BALANCE
          \<or> (\<exists>tag c tr. cp_get p KEY_WHITE_BALANCE = Some tag \<and> white_balance_code tag = Some c
                  \<and> prefix (trace s) tr \<and> prefix (tr @ [SetWhiteBalance c]) (trace s')
                  \<and> 0 \<le> status E tr (SetWhiteBalance c)
                  \<and> mParameters s' KEY_WHITE_BALANCE = Some tag)"
      using axes(2) later by blast
    have exposure:
      "mParameters s' KEY_EXPOSURE_COMPENSATION = mParameters s KEY_EXPOSURE_COMPENSATION
          \<or> (\<exists>tr. getInt E p KEY_MIN_EXPOSURE_COMPENSATION \<le> getInt E p KEY_EXPOSURE_COMPENSATION
              \<and> getInt E p KEY_EXPOSURE_COMPENSATION \<le> getInt E p KEY_MAX_EXPOSURE_COMPENSATION
              \<and> prefix (trace s) tr
              \<and> prefix (tr @ [SetExposure (getInt E p KEY_EXPOSURE_COMPENSATION)]) (trace s')
              \<and> 0 \<le> status E tr (SetExposure (getInt E p KEY_EXPOSURE_COMPENSATION))
              \<and> mParameters s' KEY_EXPOSURE_COMPENSATION
                  = Some (int_str E (getInt E p KEY_EXPOSURE_COMPENSATION)))"
      using axes(3) later by blast
    from effect white exposure axes(4-7) show ?thesis by blast
  qed
qed

theorem setParameters_axis_values_witness:
  "(\<exists>s'. setParameters env_flash_zoom params_strobe cam_flash_zoom = Some (NO_ERROR, s')
      \<and> mParameters s' KEY_FLASH_MODE = Some ''strobe''
      \<and> mParameters s' KEY_ZOOM = Some ''9999''
      \<and> mParameters s' KEY_FOCUS_MODE = mParameters cam_flash_zoom KEY_FOCUS_MODE)
   \<and> (\<exists>s' tr. setParameters env_effects params_effects cam0 = Some (NO_ERROR, s')
      \<and> mParameters s' KEY_EFFECT = Some ''mono''
      \<and> prefix (tr @ [SetImageEffect V4L2_COLORFX_BW]) (trace s')
      \<and> 0 \<le> status env_effects tr (SetImageEffect V4L2_COLORFX_BW))
   \<and> (\<exists>s'. setParameters env_effects_rejected params_effects cam0 = Some (NO_ERROR, s')
      \<and> mParameters s' KEY_EFFECT = None
      \<and> mParameters s' KEY_WHITE_BALANCE = Some ''daylight'')"
proof -
  have "status_of (setParameters env_flash_zoom params_strobe cam_flash_zoom) = Some NO_ERROR"
    by code_simp
  then obtain s1 where
    run1: "setParameters env_flash_zoom params_strobe cam_flash_zoom = Some (NO_ERROR, s1)"
    by (auto simp: status_of_def)
  have flash: "supportFlashMode env_flash_zoom" and zoom: "supportZoom env_flash_zoom"
    by (simp_all add: env_flash_zoom_def)
  have asked: "cp_get params_strobe KEY_FLASH_MODE = Some ''strobe''"
    by code_simp
  have plain: "\<not> cp_reserved ''strobe''" by (simp add: cp_reserved_def)
  have number: "int_str env_flash_zoom (getInt env_flash_zoom params_strobe KEY_ZOOM) = ''9999''"
    by code_simp
  have plain': "\<not> cp_reserved ''9999''" by (simp add: cp_reserved_def)
  from setParameters_axis_values [OF run1] flash zoom asked plain number plain' run1
  have first: "\<exists>s'. setParameters env_flash_zoom params_strobe cam_flash_zoom = Some (NO_ERROR, s')
      \<and> mParameters s' KEY_FLASH_MODE = Some ''strobe''
      \<and> mParameters s' KEY_ZOOM = Some ''9999''
      \<and> mParameters s' KEY_FOCUS_MODE = mParameters cam_flash_zoom KEY_FOCUS_MODE"
    by auto
  have "status_of (setParameters env_effects params_effects cam0) = Some NO_ERROR"
    and "stored KEY_EFFECT (setParameters env_effects params_effects cam0) = Some (Some ''mono'')"
    by code_simp+
  then obtain s2 where run2: "setParameters env_effects params_effects cam0 = Some (NO_ERROR, s2)"
    and mono: "mParameters s2 KEY_EFFECT = Some ''mono''"
    by (auto simp: status_of_def stored_def)
  have old: "mParameters cam0 KEY_EFFECT = None" by (simp add: cam0_def params0_def)
  have tag: "cp_get params_effects KEY_EFFECT = Some ''mono''" by code_simp
  have code: "effect_code ''mono'' = Some V4L2_COLORFX_BW" by (simp add: effect_code_def)
  from setParameters_axis_values [OF run2] mono old tag code
  have "\<exists>tr. prefix (tr @ [SetImageEffect V4L2_COLORFX_BW]) (trace s2)
          \<and> 0 \<le> status env_effects tr (SetImageEffect V4L2_COLORFX_BW)"
    by auto
  with run2 mono have second:
    "\<exists>s' tr. setParameters env_effects params_effects cam0 = Some (NO_ERROR, s')
      \<and> mParameters s' KEY_EFFECT = Some ''mono''
      \<and> prefix (tr @ [SetImageEffect V4L2_COLORFX_BW]) (trace s')
      \<and> 0 \<le> status env_effects tr (SetImageEffect V4L2_COLORFX_BW)"
    by blast
  have "status_of (setParameters env_effects_rejected params_effects cam0) = Some NO_ERROR"
    and "stored KEY_WHITE_BALANCE (setParameters env_effects_rejected params_effects cam0)
           = Some (Some ''daylight'')"
    by code_simp+
  then obtain s3 where
    run3: "setParameters env_effects_rejected params_effects cam0 = Some (NO_ERROR, s3)"
    and day: "mParameters s3 KEY_WHITE_BALANCE = Some ''daylight''"
    by (auto simp: status_of_def stored_def)
  have rejects: "\<And>tr c. status env_effects_rejected tr (SetImageEffect c) < 0"
    by (simp add: env_effects_rejected_def)
  from setParameters_axis_values [OF run3] old rejects
  have "mParameters s3 KEY_EFFECT = None"
    by (metis not_le)
  with run3 day have third:
    "\<exists>s'. setParameters env_effects_rejected params_effects cam0 = Some (NO_ERROR, s')
      \<and> mParameters s' KEY_EFFECT = None
      \<and> mParameters s' KEY_WHITE_BALANCE = Some ''daylight''"
    by blast
  from first second third show ?thesis by blast
qed

text \<open>
  C9 as stated fails: on a camera that advertises the flash modes \<^verbatim>\<open>off,on,auto\<close> and the
  maximal zoom 10, \<^verbatim>\<open>setParameters\<close> with the flash mode \<^verbatim>\<open>strobe\<close> and the zoom 9999
  returns \<^verbatim>\<open>NO_ERROR\<close> and stores both.
\<close>

theorem setParameters_unadvertised_counterexample:
  "status_of (setParameters env_flash_zoom params_strobe cam_flash_zoom) = Some NO_ERROR
   \<and> stored KEY_FLASH_MODE (setParameters env_flash_zoom params_strobe cam_flash_zoom)
       = Some (Some ''strobe'')
   \<and> stored KEY_SUPPORTED_FLASH_MODES (setParameters env_flash_zoom params_strobe cam_flash_zoom)
       = Some (Some ''off,on,auto'')
   \<and> advertised (mParameters cam_flash_zoom) KEY_SUPPORTED_FLASH_MODES ''strobe'' = False
   \<and> advertised (mParameters cam_flash_zoom) KEY_SUPPORTED_FLASH_MODES ''auto'' = True
   \<and> stored KEY_ZOOM (setParameters env_flash_zoom params_strobe cam_flash_zoom)
       = Some (Some ''9999'')
   \<and> stored KEY_MAX_ZOOM (setParameters env_flash_zoom params_strobe cam_flash_zoom)
       = Some (Some ''10'')"
  by code_simp

end
